theory Spec2Isabelle
  imports Main
begin

section \<open>Data model: Firestore documents of the booking functions\<close>

text \<open>
  The Cloud Functions \<^verbatim>\<open>reservarActividad\<close>, \<^verbatim>\<open>reservarTurno\<close> and
  \<^verbatim>\<open>procesarSuspension\<close> work on four Firestore collections. A document is a record of
  its fields; a field the code tests for presence (\<^verbatim>\<open>!x\<close>, \<^verbatim>\<open>x || d\<close>, \<^verbatim>\<open>x?.f\<close>) is an
  option, \<open>None\<close> being JavaScript's \<^verbatim>\<open>undefined\<close>. A number field holds an
  integer.
\<close>

text \<open>\<^verbatim>\<open>admin.firestore.Timestamp\<close>: whole seconds and the nanoseconds within the second.\<close>

record timestamp =
  seconds :: int
  nanoseconds :: int

text \<open>
  The order Firestore uses for timestamps in the range filters of a query: by seconds,
  then by nanoseconds.
\<close>

definition ts_le :: "timestamp \<Rightarrow> timestamp \<Rightarrow> bool" where
  "ts_le a b =
     (seconds a < seconds b \<or> (seconds a = seconds b \<and> nanoseconds a \<le> nanoseconds b))"

definition ts_less :: "timestamp \<Rightarrow> timestamp \<Rightarrow> bool" where
  "ts_less a b =
     (seconds a < seconds b \<or> (seconds a = seconds b \<and> nanoseconds a < nanoseconds b))"

text \<open>
  A template literal, kept as its parts: the rendering of a date by
  \<^verbatim>\<open>toDate().toLocaleString()\<close> depends on the locale of the server, and an absent
  value renders as \<^verbatim>\<open>undefined\<close>.
\<close>

datatype parte = Texto string | Cadena "string option" | Numero int | Fecha timestamp

type_synonym mensaje = "parte list"

record actividad =
  cupo :: "int option"
  nombre :: "string option"

record reserva =
  actividadId :: "string option"
  fechaActividad :: "timestamp option"
  cupoTomado :: "int option"
  estado :: "string option"
  motivoFalla :: "mensaje option"
  motivoCancelacion :: "string option"
  fechaCancelacion :: "timestamp option"

record terapia =
  duracionMinutos :: "int option"
  profesionalId :: "string option"
  nombre :: "string option"

record turno =
  terapiaId :: "string option"
  fechaTurno :: "timestamp option"
  usuarioId :: "string option"
  estado :: "string option"
  motivoFalla :: "mensaje option"
  motivoCancelacion :: "string option"
  fechaCancelacion :: "timestamp option"

text \<open>
  A suspension document. \<^verbatim>\<open>fechaInicio\<close>, \<^verbatim>\<open>fechaFin\<close> and \<^verbatim>\<open>motivo\<close> are used
  without a test, so the type has them present; an absent \<^verbatim>\<open>tipo\<close> behaves as any
  string that is neither \<^verbatim>\<open>actividad\<close> nor \<^verbatim>\<open>profesor\<close>.
\<close>

record suspension =
  tipo :: string
  actividadId :: "string option"
  profesorId :: "string option"
  fechaInicio :: timestamp
  fechaFin :: timestamp
  motivo :: string
  afectaReservasExistentes :: "bool option"

text \<open>
  A collection is the list of its documents, each with its id. The ids of a collection are
  distinct in Firestore; theorems that need it say so. \<open>fallaTransaccion\<close> says that
  the store does not complete a transaction (contention after its retries, or the store
  is not reachable): \<^verbatim>\<open>runTransaction\<close> then rejects with an error of the store.
\<close>

type_synonym 'a coleccion = "(string \<times> 'a) list"

record store =
  actividades :: "actividad coleccion"
  reservas :: "reserva coleccion"
  terapias :: "terapia coleccion"
  turnos :: "turno coleccion"
  fallaTransaccion :: bool

subsection \<open>JavaScript numbers\<close>

text \<open>
  A JavaScript number is a double. On integers of finite size: every integer below
  \<open>2 ^ 53\<close> in absolute value is a double, and from there on the doubles are the
  multiples of \<open>ulp\<close>, which doubles with each binary digit. \<open>js_num\<close> rounds an
  integer to the nearest double, a tie to the even multiple; it is what reading an
  integer field gives, and \<^verbatim>\<open>+\<close>, \<^verbatim>\<open>-\<close> and \<^verbatim>\<open>*\<close> round the exact result.
\<close>

fun ulp :: "nat \<Rightarrow> int" where
  "ulp m = (if m < 2 ^ 53 then 1 else 2 * ulp (m div 2))"

definition js_num :: "int \<Rightarrow> int" where
  "js_num n =
     (let u = ulp (nat \<bar>n\<bar>); q = n div u; r = n mod u
      in if 2 * r < u then q * u
         else if u < 2 * r then (q + 1) * u
         else if even q then q * u else (q + 1) * u)"

definition js_add :: "int \<Rightarrow> int \<Rightarrow> int" where
  "js_add a b = js_num (a + b)"

definition js_sub :: "int \<Rightarrow> int \<Rightarrow> int" where
  "js_sub a b = js_num (a - b)"

definition js_mul :: "int \<Rightarrow> int \<Rightarrow> int" where
  "js_mul a b = js_num (a * b)"

text \<open>
  \<^verbatim>\<open>new admin.firestore.Timestamp(seconds, nanoseconds)\<close> throws unless the seconds are
  between the years 1 and 9999 and the nanoseconds below a second.
\<close>

definition nuevoTimestamp :: "int \<Rightarrow> int \<Rightarrow> timestamp option" where
  "nuevoTimestamp sec nano =
     (if - 62135596800 \<le> sec \<and> sec \<le> 253402300799 \<and> 0 \<le> nano \<and> nano \<le> 999999999
      then Some \<lparr>seconds = sec, nanoseconds = nano\<rparr> else None)"

subsection \<open>Document references\<close>

text \<open>
  \<^verbatim>\<open>db.collection(c).doc(path)\<close> splits the path at its slashes and drops the empty
  segments. It throws when the path is absent or empty, when it holds two slashes in a
  row, and when the segments do not end at a document (their number is even). The
  reference is the list of the segments: one segment is a document of the collection,
  more are a document of a subcollection, and the store holds none of those.
\<close>

fun split_slash :: "string \<Rightarrow> string list" where
  "split_slash [] = [[]]"
| "split_slash (c # cs) =
     (if c = CHR ''/'' then [] # split_slash cs
      else (case split_slash cs of [] \<Rightarrow> [[c]] | x # xs \<Rightarrow> (c # x) # xs))"

fun doble_barra :: "string \<Rightarrow> bool" where
  "doble_barra (a # b # cs) = ((a = CHR ''/'' \<and> b = CHR ''/'') \<or> doble_barra (b # cs))"
| "doble_barra cs = False"

definition doc :: "string option \<Rightarrow> string list option" where
  "doc path =
     (case path of
        None \<Rightarrow> None
      | Some p \<Rightarrow>
          let segs = filter (\<lambda>x. x \<noteq> []) (split_slash p)
          in if p = [] \<or> doble_barra p \<or> even (length segs) then None else Some segs)"

definition get :: "'a coleccion \<Rightarrow> string list \<Rightarrow> 'a option" where
  "get c ref = (case ref of [i] \<Rightarrow> map_of c i | _ \<Rightarrow> None)"

subsection \<open>JavaScript truthiness\<close>

text \<open>\<^verbatim>\<open>!x\<close> on a string field: absent and the empty string are falsy.\<close>

definition truthy :: "string option \<Rightarrow> bool" where
  "truthy x = (case x of None \<Rightarrow> False | Some v \<Rightarrow> v \<noteq> [])"

text \<open>
  \<^verbatim>\<open>x || d\<close> on a number field: absent and 0 give the default, and any other value is
  read as a JavaScript number.
\<close>

definition or_default :: "int option \<Rightarrow> int \<Rightarrow> int" where
  "or_default x d = (case x of None \<Rightarrow> d | Some n \<Rightarrow> if n = 0 then d else js_num n)"

subsection \<open>Errors and writes\<close>

text \<open>
  What a transaction body throws: an \<^verbatim>\<open>HttpsError\<close> with its code and message, or
  anything else (the \<^verbatim>\<open>else\<close> branch of the \<^verbatim>\<open>catch\<close>).
\<close>

datatype codigo = not_found | failed_precondition | resource_exhausted | already_exists

datatype excepcion = HttpsError codigo mensaje | ErrorInesperado

text \<open>The two payloads the functions pass to \<^verbatim>\<open>update\<close>.\<close>

datatype cambio =
    Fallida mensaje
  | CanceladoPorAdmin string timestamp

datatype destino = Reservas | Turnos

datatype escritura = Delete destino string | Update destino string cambio

definition cambiar_reserva :: "cambio \<Rightarrow> reserva \<Rightarrow> reserva" where
  "cambiar_reserva c r =
     (case c of
        Fallida m \<Rightarrow> r\<lparr>reserva.estado := Some ''fallida'', reserva.motivoFalla := Some m\<rparr>
      | CanceladoPorAdmin m t \<Rightarrow>
          r\<lparr>reserva.estado := Some ''cancelado_por_admin'',
            reserva.motivoCancelacion := Some m,
            reserva.fechaCancelacion := Some t\<rparr>)"

definition cambiar_turno :: "cambio \<Rightarrow> turno \<Rightarrow> turno" where
  "cambiar_turno c r =
     (case c of
        Fallida m \<Rightarrow> r\<lparr>turno.estado := Some ''fallida'', turno.motivoFalla := Some m\<rparr>
      | CanceladoPorAdmin m t \<Rightarrow>
          r\<lparr>turno.estado := Some ''cancelado_por_admin'',
            turno.motivoCancelacion := Some m,
            turno.fechaCancelacion := Some t\<rparr>)"

definition update_doc :: "string \<Rightarrow> ('a \<Rightarrow> 'a) \<Rightarrow> 'a coleccion \<Rightarrow> 'a coleccion" where
  "update_doc i f c = map (\<lambda>(j, d). if j = i then (j, f d) else (j, d)) c"

definition delete_doc :: "string \<Rightarrow> 'a coleccion \<Rightarrow> 'a coleccion" where
  "delete_doc i c = filter (\<lambda>(j, d). j \<noteq> i) c"

text \<open>
  One write on the store. An update of a document that is not there changes nothing (the
  call is rejected).
\<close>

fun aplicar :: "store \<Rightarrow> escritura \<Rightarrow> store" where
  "aplicar s (Delete Reservas i) = s\<lparr>reservas := delete_doc i (reservas s)\<rparr>"
| "aplicar s (Delete Turnos i) = s\<lparr>turnos := delete_doc i (turnos s)\<rparr>"
| "aplicar s (Update Reservas i c) = s\<lparr>reservas := update_doc i (cambiar_reserva c) (reservas s)\<rparr>"
| "aplicar s (Update Turnos i c) = s\<lparr>turnos := update_doc i (cambiar_turno c) (turnos s)\<rparr>"

text \<open>
  A function returns the store it leaves and the writes it made, in order. \<open>commit\<close> is
  a single write or a batch.
\<close>

definition commit :: "escritura list \<Rightarrow> store \<Rightarrow> store \<times> escritura list" where
  "commit ws s = (foldl aplicar s ws, ws)"

text \<open>
  \<^verbatim>\<open>db.runTransaction(body)\<close>: what the body throws comes out as it is; when the store
  does not complete the transaction the error is the store's, not an \<^verbatim>\<open>HttpsError\<close>.
  The bodies below only read.
\<close>

definition runTransaction :: "store \<Rightarrow> (store \<Rightarrow> excepcion + 'a) \<Rightarrow> excepcion + 'a" where
  "runTransaction s body = (if fallaTransaccion s then Inl ErrorInesperado else body s)"

section \<open>reservarActividad\<close>

text \<open>
  The query of the transaction: the reservations of the activity at that date whose
  \<^verbatim>\<open>estado\<close> is \<^verbatim>\<open>confirmada\<close> or \<^verbatim>\<open>pendiente\<close>.
\<close>

definition reservasSnapshot :: "store \<Rightarrow> string \<Rightarrow> timestamp \<Rightarrow> reserva coleccion" where
  "reservasSnapshot s aid f =
     filter (\<lambda>(i, r). reserva.actividadId r = Some aid \<and> fechaActividad r = Some f \<and>
                      (reserva.estado r = Some ''confirmada'' \<or> reserva.estado r = Some ''pendiente''))
       (reservas s)"

text \<open>The \<^verbatim>\<open>forEach\<close> that adds up \<^verbatim>\<open>cupoOcupado\<close>, skipping the triggering document.\<close>

fun cupoOcupado :: "string \<Rightarrow> reserva coleccion \<Rightarrow> int \<Rightarrow> int" where
  "cupoOcupado snapId [] acc = acc"
| "cupoOcupado snapId ((i, r) # docs) acc =
     (if i \<noteq> snapId then cupoOcupado snapId docs (js_add acc (or_default (cupoTomado r) 1))
      else cupoOcupado snapId docs acc)"

text \<open>The body of the transaction, for the reference \<open>actividadRef\<close>.\<close>

definition transaccionReserva ::
  "string \<Rightarrow> string list \<Rightarrow> string \<Rightarrow> timestamp \<Rightarrow> int \<Rightarrow> store \<Rightarrow> excepcion + unit" where
  "transaccionReserva snapId actividadRef aid fecha cupoTom s =
     (case get (actividades s) actividadRef of
        None \<Rightarrow>
          Inl (HttpsError not_found
                 [Texto ''La actividad con ID '', Cadena (Some aid), Texto '' no existe.''])
      | Some actividadData \<Rightarrow>
          let cupoMaximo = or_default (cupo actividadData) 0;
              ocupado = cupoOcupado snapId (reservasSnapshot s aid fecha) 0;
              cupoDisponible = js_sub cupoMaximo ocupado
          in if cupoDisponible < cupoTom then
               Inl (HttpsError resource_exhausted
                      [Texto ''No hay cupos disponibles para la actividad '',
                       Cadena (actividad.nombre actividadData), Texto '' el '', Fecha fecha,
                       Texto ''. Cupo actual: '', Numero cupoDisponible, Texto ''.''])
             else Inr ())"

text \<open>The \<^verbatim>\<open>catch\<close> block: the reason written to \<^verbatim>\<open>motivoFalla\<close>.\<close>

definition motivoDeError :: "excepcion \<Rightarrow> mensaje" where
  "motivoDeError e =
     (case e of
        HttpsError c m \<Rightarrow> m
      | ErrorInesperado \<Rightarrow> [Texto ''Error interno del servidor.''])"

text \<open>
  The trigger on \<^verbatim>\<open>reservas/{reservaId}\<close>. The event carries the snapshot (id and data of
  the created document) or nothing. \<^verbatim>\<open>doc(actividadId)\<close> stands before the \<^verbatim>\<open>try\<close>:
  when it throws, the function is rejected and nothing is written.
\<close>

definition reservarActividad :: "store \<Rightarrow> (string \<times> reserva) option \<Rightarrow> store \<times> escritura list" where
  "reservarActividad s snapshot =
     (case snapshot of
        None \<Rightarrow> (s, [])
      | Some (snapId, nuevaReserva) \<Rightarrow>
          let cupoTom = or_default (cupoTomado nuevaReserva) 1 in
          if \<not> truthy (reserva.actividadId nuevaReserva) \<or> fechaActividad nuevaReserva = None
          then commit [Delete Reservas snapId] s
          else (case doc (reserva.actividadId nuevaReserva) of
                  None \<Rightarrow> (s, [])
                | Some actividadRef \<Rightarrow>
                    (case runTransaction s
                            (transaccionReserva snapId actividadRef
                               (the (reserva.actividadId nuevaReserva))
                               (the (fechaActividad nuevaReserva)) cupoTom) of
                       Inr u \<Rightarrow> (s, [])
                     | Inl e \<Rightarrow> commit [Update Reservas snapId (Fallida (motivoDeError e))] s)))"

section \<open>reservarTurno\<close>

text \<open>
  The query of the transaction: the appointments whose \<^verbatim>\<open>estado\<close> is \<^verbatim>\<open>confirmado\<close> or
  \<^verbatim>\<open>pendiente\<close> and whose \<^verbatim>\<open>fechaTurno\<close> is not after the end of the new one. A
  document without \<^verbatim>\<open>fechaTurno\<close> does not match a range filter. The documents are
  taken in the order of the collection.
\<close>

definition solapamientosSnapshot :: "store \<Rightarrow> timestamp \<Rightarrow> turno coleccion" where
  "solapamientosSnapshot s finTurnoActual =
     filter (\<lambda>(i, t). (turno.estado t = Some ''confirmado'' \<or> turno.estado t = Some ''pendiente'') \<and>
                      (case fechaTurno t of None \<Rightarrow> False | Some f \<Rightarrow> ts_le f finTurnoActual))
       (turnos s)"

text \<open>
  The \<^verbatim>\<open>for...of\<close> loop over the candidates. \<open>Inr True\<close> is the \<^verbatim>\<open>break\<close> with
  \<^verbatim>\<open>solapamientoEncontrado\<close> set. Three steps of the loop can throw, none of them an
  \<^verbatim>\<open>HttpsError\<close>: \<^verbatim>\<open>doc(existingTurno.terapiaId)\<close>, reading \<^verbatim>\<open>seconds\<close> of an absent
  \<^verbatim>\<open>fechaTurno\<close>, and \<^verbatim>\<open>new Timestamp\<close> for the end of the candidate.
\<close>

fun buscarSolapamiento ::
  "store \<Rightarrow> string \<Rightarrow> string \<Rightarrow> timestamp \<Rightarrow> timestamp \<Rightarrow> turno coleccion \<Rightarrow> excepcion + bool" where
  "buscarSolapamiento s snapId pid fecha finTurnoActual [] = Inr False"
| "buscarSolapamiento s snapId pid fecha finTurnoActual ((i, existingTurno) # docs) =
     (if i = snapId then buscarSolapamiento s snapId pid fecha finTurnoActual docs
      else
        (case doc (terapiaId existingTurno) of
           None \<Rightarrow> Inl ErrorInesperado
         | Some existingTerapiaRef \<Rightarrow>
             let existingTerapiaData = get (terapias s) existingTerapiaRef;
                 existingDuracion =
                   or_default (case existingTerapiaData of None \<Rightarrow> None
                               | Some t \<Rightarrow> duracionMinutos t) 0
             in if (case existingTerapiaData of None \<Rightarrow> None | Some t \<Rightarrow> profesionalId t)
                   \<noteq> Some pid
                then buscarSolapamiento s snapId pid fecha finTurnoActual docs
                else
                  (case fechaTurno existingTurno of
                     None \<Rightarrow> Inl ErrorInesperado
                   | Some existingFechaTurno \<Rightarrow>
                       (case nuevoTimestamp
                               (js_add (seconds existingFechaTurno) (js_mul existingDuracion 60))
                               (nanoseconds existingFechaTurno) of
                          None \<Rightarrow> Inl ErrorInesperado
                        | Some existingFinTurno \<Rightarrow>
                            if seconds fecha < seconds existingFinTurno \<and>
                               seconds finTurnoActual > seconds existingFechaTurno
                            then Inr True
                            else buscarSolapamiento s snapId pid fecha finTurnoActual docs))))"

text \<open>The body of the transaction, for the reference \<open>terapiaRef\<close>.\<close>

definition transaccionTurno ::
  "string \<Rightarrow> string list \<Rightarrow> string \<Rightarrow> timestamp \<Rightarrow> store \<Rightarrow> excepcion + unit" where
  "transaccionTurno snapId terapiaRef tid fecha s =
     (case get (terapias s) terapiaRef of
        None \<Rightarrow>
          Inl (HttpsError not_found
                 [Texto ''La terapia con ID '', Cadena (Some tid), Texto '' no existe.''])
      | Some terapiaData \<Rightarrow>
          let duracionTerapia = or_default (duracionMinutos terapiaData) 0 in
          if \<not> truthy (profesionalId terapiaData) then
            Inl (HttpsError failed_precondition
                   [Texto ''La terapia '', Cadena (terapia.nombre terapiaData),
                    Texto '' no tiene un profesional asignado.''])
          else
            (case nuevoTimestamp (js_add (seconds fecha) (js_mul duracionTerapia 60))
                    (nanoseconds fecha) of
               None \<Rightarrow> Inl ErrorInesperado
             | Some finTurnoActual \<Rightarrow>
                 (case buscarSolapamiento s snapId (the (profesionalId terapiaData)) fecha
                         finTurnoActual (solapamientosSnapshot s finTurnoActual) of
                    Inl e \<Rightarrow> Inl e
                  | Inr solapamientoEncontrado \<Rightarrow>
                      if solapamientoEncontrado then
                        Inl (HttpsError already_exists
                               [Texto ''El terapeuta ya tiene un turno reservado para esa franja horaria.''])
                      else Inr ())))"

text \<open>
  The trigger on \<^verbatim>\<open>turnos/{turnoId}\<close>. \<^verbatim>\<open>doc(terapiaId)\<close> stands before the \<^verbatim>\<open>try\<close>, as
  in \<^verbatim>\<open>reservarActividad\<close>.
\<close>

definition reservarTurno :: "store \<Rightarrow> (string \<times> turno) option \<Rightarrow> store \<times> escritura list" where
  "reservarTurno s snapshot =
     (case snapshot of
        None \<Rightarrow> (s, [])
      | Some (snapId, nuevoTurno) \<Rightarrow>
          if \<not> truthy (terapiaId nuevoTurno) \<or> fechaTurno nuevoTurno = None \<or>
             \<not> truthy (usuarioId nuevoTurno)
          then commit [Delete Turnos snapId] s
          else (case doc (terapiaId nuevoTurno) of
                  None \<Rightarrow> (s, [])
                | Some terapiaRef \<Rightarrow>
                    (case runTransaction s
                            (transaccionTurno snapId terapiaRef (the (terapiaId nuevoTurno))
                               (the (fechaTurno nuevoTurno))) of
                       Inr u \<Rightarrow> (s, [])
                     | Inl e \<Rightarrow> commit [Update Turnos snapId (Fallida (motivoDeError e))] s)))"

section \<open>procesarSuspension\<close>

text \<open>
  \<^verbatim>\<open>event.data\<close> of a written document: the snapshots before and after the write; a
  snapshot that does not exist is \<open>None\<close>.
\<close>

record 'a change =
  before :: "'a option"
  after :: "'a option"

text \<open>The query on \<^verbatim>\<open>reservas\<close>: in the window, confirmed, and of the activity when the
  suspension is of an activity.\<close>

definition reservasQuery :: "suspension \<Rightarrow> store \<Rightarrow> reserva coleccion" where
  "reservasQuery sus s =
     filter (\<lambda>(i, r).
         (case fechaActividad r of None \<Rightarrow> False
          | Some f \<Rightarrow> ts_le (fechaInicio sus) f \<and> ts_le f (fechaFin sus)) \<and>
         reserva.estado r = Some ''confirmada'' \<and>
         (if tipo sus = ''actividad'' \<and> truthy (suspension.actividadId sus)
          then reserva.actividadId r = suspension.actividadId sus else True))
       (reservas s)"

text \<open>The base query on \<^verbatim>\<open>turnos\<close>, with the filter on \<^verbatim>\<open>terapiaId\<close> added by the caller.\<close>

definition turnosQuery :: "suspension \<Rightarrow> (string option \<Rightarrow> bool) \<Rightarrow> store \<Rightarrow> turno coleccion" where
  "turnosQuery sus porTerapia s =
     filter (\<lambda>(i, t).
         (case fechaTurno t of None \<Rightarrow> False
          | Some f \<Rightarrow> ts_le (fechaInicio sus) f \<and> ts_le f (fechaFin sus)) \<and>
         turno.estado t = Some ''confirmado'' \<and> porTerapia (terapiaId t))
       (turnos s)"

definition cancelar :: "destino \<Rightarrow> string \<Rightarrow> timestamp \<Rightarrow> 'a coleccion \<Rightarrow> escritura list" where
  "cancelar d m ahora docs = map (\<lambda>(i, x). Update d i (CanceladoPorAdmin m ahora)) docs"

text \<open>
  The first half of the function: the confirmed reservations of the window are updated in
  one batch. \<open>ahora\<close> is the value the server gives to
  \<^verbatim>\<open>FieldValue.serverTimestamp()\<close>.
\<close>

definition cancelarReservas :: "timestamp \<Rightarrow> suspension \<Rightarrow> store \<Rightarrow> store \<times> escritura list" where
  "cancelarReservas ahora sus s =
     (let batchReservas = cancelar Reservas (motivo sus) ahora (reservasQuery sus s)
      in commit batchReservas s)"

text \<open>
  The second half: the confirmed appointments of the window, of the therapies of the
  professional, or of the therapy named by \<^verbatim>\<open>actividadId\<close>, or all of them. With no
  therapy of the professional the function returns before any query on \<^verbatim>\<open>turnos\<close>.
\<close>

definition cancelarTurnos :: "timestamp \<Rightarrow> suspension \<Rightarrow> store \<Rightarrow> store \<times> escritura list" where
  "cancelarTurnos ahora sus s =
     (if tipo sus = ''profesor'' \<and> truthy (profesorId sus) then
        let terapiaIdsAfectadas =
              map fst (filter (\<lambda>(i, t). profesionalId t = profesorId sus) (terapias s))
        in if terapiaIdsAfectadas \<noteq> [] then
             commit (cancelar Turnos (motivo sus) ahora
                       (turnosQuery sus
                          (\<lambda>x. case x of None \<Rightarrow> False
                               | Some tid \<Rightarrow> tid \<in> set terapiaIdsAfectadas) s)) s
           else (s, [])
      else if tipo sus = ''actividad'' \<and> truthy (suspension.actividadId sus) then
        commit (cancelar Turnos (motivo sus) ahora
                  (turnosQuery sus (\<lambda>x. x = suspension.actividadId sus) s)) s
      else
        commit (cancelar Turnos (motivo sus) ahora (turnosQuery sus (\<lambda>x. True) s)) s)"

text \<open>The trigger on \<^verbatim>\<open>suspensiones/{suspensionId}\<close>.\<close>

definition procesarSuspension ::
  "timestamp \<Rightarrow> store \<Rightarrow> suspension change option \<Rightarrow> store \<times> escritura list" where
  "procesarSuspension ahora s data =
     (case data of
        None \<Rightarrow> (s, [])
      | Some ch \<Rightarrow>
          (case after ch of
             None \<Rightarrow> (s, [])
           | Some sus \<Rightarrow>
               if afectaReservasExistentes sus \<noteq> Some True then (s, [])
               else
                 let (s1, batchReservas) = cancelarReservas ahora sus s;
                     (s2, batchTurnos) = cancelarTurnos ahora sus s1
                 in (s2, batchReservas @ batchTurnos)))"

section \<open>The properties, in the words of the specification\<close>

text \<open>
  \<open>occupied\<close>: the sum of \<^verbatim>\<open>seatsRequested\<close> (1 when absent or zero) over the
  reservations of the same activity and date whose status is confirmed or pending, the
  reservation \<open>rid\<close> left out.
\<close>

definition occupied :: "store \<Rightarrow> string \<Rightarrow> string \<Rightarrow> timestamp \<Rightarrow> int" where
  "occupied s rid aid f =
     sum_list (map (\<lambda>(i, r). or_default (cupoTomado r) 1)
       (filter (\<lambda>(i, r). i \<noteq> rid \<and> reserva.actividadId r = Some aid \<and> fechaActividad r = Some f \<and>
                  (reserva.estado r = Some ''confirmada'' \<or> reserva.estado r = Some ''pendiente''))
          (reservas s)))"

text \<open>
  The size of the numbers of a store for activity \<open>a\<close>: the capacity and the seat counts
  of all reservations, in absolute value, added up. Below \<open>2 ^ 53\<close> every sum and
  difference the function computes is exact.
\<close>

definition magnitude :: "store \<Rightarrow> actividad \<Rightarrow> int" where
  "magnitude s a =
     \<bar>or_default (cupo a) 0\<bar> +
     sum_list (map (\<lambda>(i, r). \<bar>or_default (cupoTomado r) 1\<bar>) (reservas s))"

text \<open>A document id as the data model has it: not empty and without a slash.\<close>

definition plain_id :: "string \<Rightarrow> bool" where
  "plain_id i = (i \<noteq> [] \<and> CHR ''/'' \<notin> set i)"

text \<open>The practitioner of an appointment, through its therapy, and its duration.\<close>

definition practitioner :: "store \<Rightarrow> turno \<Rightarrow> string option" where
  "practitioner s c =
     (case terapiaId c of
        None \<Rightarrow> None
      | Some tid \<Rightarrow> (case map_of (terapias s) tid of None \<Rightarrow> None | Some t \<Rightarrow> profesionalId t))"

definition duration :: "store \<Rightarrow> turno \<Rightarrow> int" where
  "duration s c =
     (case terapiaId c of
        None \<Rightarrow> 0
      | Some tid \<Rightarrow>
          (case map_of (terapias s) tid of None \<Rightarrow> 0 | Some t \<Rightarrow> or_default (duracionMinutos t) 0))"

definition plus_minutes :: "timestamp \<Rightarrow> int \<Rightarrow> timestamp" where
  "plus_minutes t m = \<lparr>seconds = seconds t + m * 60, nanoseconds = nanoseconds t\<rparr>"

text \<open>
  The appointment \<open>c\<close> is another active appointment of practitioner \<open>pid\<close>, and the
  overlap test of the specification on the two intervals, in the order of the timestamps.
\<close>

definition rival :: "store \<Rightarrow> string \<Rightarrow> string \<Rightarrow> string \<times> turno \<Rightarrow> bool" where
  "rival s snapId pid ic =
     (fst ic \<noteq> snapId \<and>
      (turno.estado (snd ic) = Some ''confirmado'' \<or> turno.estado (snd ic) = Some ''pendiente'') \<and>
      practitioner s (snd ic) = Some pid)"

definition overlaps :: "store \<Rightarrow> timestamp \<Rightarrow> timestamp \<Rightarrow> turno \<Rightarrow> bool" where
  "overlaps s aStart aEnd c =
     (case fechaTurno c of
        None \<Rightarrow> False
      | Some cStart \<Rightarrow> ts_less aStart (plus_minutes cStart (duration s c)) \<and> ts_less cStart aEnd)"

text \<open>A reservation or an appointment lies in the window of a suspension.\<close>

definition in_window :: "suspension \<Rightarrow> timestamp option \<Rightarrow> bool" where
  "in_window sus f =
     (case f of None \<Rightarrow> False | Some t \<Rightarrow> ts_le (fechaInicio sus) t \<and> ts_le t (fechaFin sus))"

text \<open>The filter on \<^verbatim>\<open>terapiaId\<close> that a suspension puts on the appointments.\<close>

definition porTerapia :: "suspension \<Rightarrow> store \<Rightarrow> string option \<Rightarrow> bool" where
  "porTerapia sus s x =
     (if tipo sus = ''profesor'' \<and> truthy (profesorId sus) then
        (case x of None \<Rightarrow> False
         | Some tid \<Rightarrow> tid \<in> fst ` set (filter (\<lambda>(i, t). profesionalId t = profesorId sus) (terapias s)))
      else if tipo sus = ''actividad'' \<and> truthy (suspension.actividadId sus) then
        x = suspension.actividadId sus
      else True)"

section \<open>Example data\<close>

definition t0 :: timestamp where
  "t0 = \<lparr>seconds = 36000, nanoseconds = 0\<rparr>"

definition yoga :: actividad where
  "yoga = \<lparr>cupo = Some 5, actividad.nombre = Some ''Yoga''\<rparr>"

definition reserva_de :: "string \<Rightarrow> int option \<Rightarrow> string \<Rightarrow> reserva" where
  "reserva_de aid n e =
     \<lparr>reserva.actividadId = Some aid, fechaActividad = Some t0, cupoTomado = n,
      reserva.estado = Some e, reserva.motivoFalla = None, reserva.motivoCancelacion = None,
      reserva.fechaCancelacion = None\<rparr>"

definition masaje :: terapia where
  "masaje = \<lparr>duracionMinutos = Some 60, profesionalId = Some ''p1'', terapia.nombre = Some ''Masaje''\<rparr>"

definition turno_de :: "string option \<Rightarrow> timestamp \<Rightarrow> string \<Rightarrow> turno" where
  "turno_de tid f e =
     \<lparr>terapiaId = tid, fechaTurno = Some f, usuarioId = Some ''u1'',
      turno.estado = Some e, turno.motivoFalla = None, turno.motivoCancelacion = None,
      turno.fechaCancelacion = None\<rparr>"

definition tienda :: "reserva coleccion \<Rightarrow> turno coleccion \<Rightarrow> store" where
  "tienda rs ts =
     \<lparr>actividades = [(''a1'', yoga)], reservas = rs, terapias = [(''t1'', masaje)], turnos = ts,
      fallaTransaccion = False\<rparr>"

definition cierre :: "string \<Rightarrow> string option \<Rightarrow> bool option \<Rightarrow> suspension" where
  "cierre tp aid af =
     \<lparr>tipo = tp, suspension.actividadId = aid, profesorId = None,
      fechaInicio = \<lparr>seconds = 0, nanoseconds = 0\<rparr>,
      fechaFin = \<lparr>seconds = 86400, nanoseconds = 0\<rparr>,
      motivo = ''Feriado'', afectaReservasExistentes = af\<rparr>"

section \<open>Numbers and document references\<close>

declare ulp.simps [simp del]

lemmas ejemplos = t0_def yoga_def reserva_de_def masaje_def turno_de_def tienda_def cierre_def

lemma ulp_small: "m < 2 ^ 53 \<Longrightarrow> ulp m = 1"
  by (subst ulp.simps) simp

lemma ulp_pos: "0 < ulp m"
proof (induction m rule: ulp.induct)
  case (1 m)
  show ?case
  proof (cases "m < 2 ^ 53")
    case True
    then show ?thesis by (simp add: ulp_small)
  next
    case False
    with 1 have "0 < ulp (m div 2)" by simp
    with False show ?thesis by (subst ulp.simps) simp
  qed
qed

lemma js_num_exact: "\<bar>n\<bar> < 2 ^ 53 \<Longrightarrow> js_num n = n"
proof -
  assume "\<bar>n\<bar> < 2 ^ 53"
  then have "nat \<bar>n\<bar> < 2 ^ 53" by simp
  then have "ulp (nat \<bar>n\<bar>) = 1" by (rule ulp_small)
  then show ?thesis by (simp add: js_num_def)
qed

lemma js_num_nonneg: "0 \<le> n \<Longrightarrow> 0 \<le> js_num n"
proof -
  assume n: "0 \<le> n"
  let ?u = "ulp (nat \<bar>n\<bar>)"
  have u: "0 < ?u" by (rule ulp_pos)
  with n have "0 \<le> n div ?u" by (simp add: pos_imp_zdiv_nonneg_iff)
  with u have "0 \<le> n div ?u * ?u" "0 \<le> (n div ?u + 1) * ?u" by simp_all
  then show ?thesis by (simp add: js_num_def Let_def)
qed

lemma js_num_nonpos: "n \<le> 0 \<Longrightarrow> js_num n \<le> 0"
proof -
  assume n: "n \<le> 0"
  let ?u = "ulp (nat \<bar>n\<bar>)"
  have u: "0 < ?u" by (rule ulp_pos)
  show ?thesis
  proof (cases "n = 0")
    case True
    then show ?thesis by (simp add: js_num_exact)
  next
    case False
    with n have "n < 0" by simp
    with u have "n div ?u < 0" by (simp add: div_neg_pos_less0)
    then have "n div ?u + 1 \<le> 0" by simp
    with u have "(n div ?u + 1) * ?u \<le> 0" "n div ?u * ?u \<le> 0"
      using \<open>n div ?u < 0\<close> by (simp_all add: mult_le_0_iff)
    then show ?thesis by (simp add: js_num_def Let_def)
  qed
qed

lemma split_slash_plain: "CHR ''/'' \<notin> set i \<Longrightarrow> split_slash i = [i]"
  by (induction i) auto

lemma doble_barra_plain: "CHR ''/'' \<notin> set i \<Longrightarrow> \<not> doble_barra i"
  by (induction i rule: doble_barra.induct) auto

lemma doc_plain: "plain_id i \<Longrightarrow> doc (Some i) = Some [i]"
  by (simp add: plain_id_def doc_def split_slash_plain doble_barra_plain)

lemma get_single [simp]: "get c [i] = map_of c i"
  by (simp add: get_def)

section \<open>Capacity admission\<close>

lemma ulp_53: "ulp 9007199254740993 = 2"
  by (subst ulp.simps) (simp add: ulp_small)

lemma cupoOcupado_exact:
  assumes "\<bar>acc\<bar> + sum_list (map (\<lambda>(i, r). \<bar>or_default (cupoTomado r) 1\<bar>) docs) < 2 ^ 53"
  shows "cupoOcupado rid docs acc
         = acc + sum_list (map (\<lambda>(i, r). or_default (cupoTomado r) 1)
                     (filter (\<lambda>(i, r). i \<noteq> rid) docs))"
  using assms
proof (induction docs arbitrary: acc)
  case Nil
  then show ?case by simp
next
  case (Cons x docs)
  obtain i r where x: "x = (i, r)" by (cases x)
  let ?v = "or_default (cupoTomado r) 1"
  let ?rest = "sum_list (map (\<lambda>(i, r). \<bar>or_default (cupoTomado r) 1\<bar>) docs)"
  have rest: "0 \<le> ?rest"
    by (rule sum_list_nonneg) auto
  from Cons.prems x have b: "\<bar>acc\<bar> + \<bar>?v\<bar> + ?rest < 2 ^ 53" by simp
  show ?case
  proof (cases "i = rid")
    case True
    from b have "\<bar>acc\<bar> + ?rest < 2 ^ 53" by linarith
    then show ?thesis using True x by (simp add: Cons.IH)
  next
    case False
    from b rest have "\<bar>acc + ?v\<bar> < 2 ^ 53" by linarith
    then have add: "js_add acc ?v = acc + ?v"
      by (simp add: js_add_def js_num_exact)
    from b have "\<bar>acc + ?v\<bar> + ?rest < 2 ^ 53" by linarith
    then show ?thesis using False x by (simp add: add Cons.IH)
  qed
qed

lemma sum_abs_filter_le:
  "sum_list (map (\<lambda>(i, r). \<bar>g r :: int\<bar>) (filter P xs)) \<le> sum_list (map (\<lambda>(i, r). \<bar>g r\<bar>) xs)"
  by (induction xs) auto

lemma sum_abs_le:
  "\<bar>sum_list (map (\<lambda>(i, r). g r :: int) xs)\<bar> \<le> sum_list (map (\<lambda>(i, r). \<bar>g r\<bar>) xs)"
  by (induction xs) auto

lemma occupied_snapshot:
  "sum_list (map (\<lambda>(i, r). or_default (cupoTomado r) 1)
      (filter (\<lambda>(i, r). i \<noteq> rid) (reservasSnapshot s aid f)))
   = occupied s rid aid f"
  unfolding reservasSnapshot_def occupied_def
  by (simp add: case_prod_unfold conj_commute conj_left_commute cong: conj_cong)

lemma transaccionReserva_exact:
  assumes "get (actividades s) ref = Some a" and "magnitude s a < 2 ^ 53"
  shows "transaccionReserva rid ref aid f n s
         = (if or_default (cupo a) 0 - occupied s rid aid f < n
            then Inl (HttpsError resource_exhausted
                   [Texto ''No hay cupos disponibles para la actividad '',
                    Cadena (actividad.nombre a), Texto '' el '', Fecha f,
                    Texto ''. Cupo actual: '',
                    Numero (or_default (cupo a) 0 - occupied s rid aid f), Texto ''.''])
            else Inr ())"
proof -
  let ?abs = "\<lambda>xs. sum_list (map (\<lambda>(i, r). \<bar>or_default (cupoTomado r) 1\<bar>) xs)"
  let ?docs = "reservasSnapshot s aid f"
  have le: "?abs ?docs \<le> ?abs (reservas s)"
    unfolding reservasSnapshot_def by (rule sum_abs_filter_le)
  from assms(2) have m: "\<bar>or_default (cupo a) 0\<bar> + ?abs (reservas s) < 2 ^ 53"
    by (simp add: magnitude_def)
  have cap: "0 \<le> \<bar>or_default (cupo a) 0\<bar>" by simp
  from m le cap have "\<bar>0::int\<bar> + ?abs ?docs < 2 ^ 53" by linarith
  then have occ: "cupoOcupado rid ?docs 0 = occupied s rid aid f"
    by (simp add: cupoOcupado_exact occupied_snapshot)
  have "\<bar>occupied s rid aid f\<bar> \<le> ?abs (filter (\<lambda>(i, r). i \<noteq> rid) ?docs)"
    unfolding occupied_snapshot [symmetric] by (rule sum_abs_le)
  also have "\<dots> \<le> ?abs ?docs" by (rule sum_abs_filter_le)
  finally have "\<bar>occupied s rid aid f\<bar> \<le> ?abs (reservas s)" using le by linarith
  with m have "\<bar>or_default (cupo a) 0 - occupied s rid aid f\<bar> < 2 ^ 53" by linarith
  then have sub: "js_sub (or_default (cupo a) 0) (occupied s rid aid f)
                  = or_default (cupo a) 0 - occupied s rid aid f"
    by (simp add: js_sub_def js_num_exact)
  show ?thesis
    using assms(1) by (simp add: transaccionReserva_def Let_def occ sub)
qed

text \<open>
  C1, as the specification states it: it fails. The activity has capacity \<open>2 ^ 53 + 2\<close>
  and two other reservations hold \<open>2 ^ 53\<close> seats and 1 seat, so one seat is left and a
  request for 2 seats should be refused. The sum \<open>2 ^ 53 + 1\<close> is not a JavaScript
  number and rounds to \<open>2 ^ 53\<close>: the code sees 2 seats left, the transaction succeeds
  and nothing is written.
\<close>

theorem capacity_rounding:
  "transaccionReserva ''r3'' [''a1''] ''a1'' t0 2
     \<lparr>actividades = [(''a1'', \<lparr>cupo = Some (2 ^ 53 + 2), actividad.nombre = Some ''Yoga''\<rparr>)],
      reservas = [(''r1'', reserva_de ''a1'' (Some (2 ^ 53)) ''confirmada''),
                  (''r2'', reserva_de ''a1'' (Some 1) ''confirmada''),
                  (''r3'', reserva_de ''a1'' (Some 2) ''pendiente'')],
      terapias = [], turnos = [], fallaTransaccion = False\<rparr>
   = Inr () \<and>
   reservarActividad
     \<lparr>actividades = [(''a1'', \<lparr>cupo = Some (2 ^ 53 + 2), actividad.nombre = Some ''Yoga''\<rparr>)],
      reservas = [(''r1'', reserva_de ''a1'' (Some (2 ^ 53)) ''confirmada''),
                  (''r2'', reserva_de ''a1'' (Some 1) ''confirmada''),
                  (''r3'', reserva_de ''a1'' (Some 2) ''pendiente'')],
      terapias = [], turnos = [], fallaTransaccion = False\<rparr>
     (Some (''r3'', reserva_de ''a1'' (Some 2) ''pendiente''))
   = (\<lparr>actividades = [(''a1'', \<lparr>cupo = Some (2 ^ 53 + 2), actividad.nombre = Some ''Yoga''\<rparr>)],
       reservas = [(''r1'', reserva_de ''a1'' (Some (2 ^ 53)) ''confirmada''),
                   (''r2'', reserva_de ''a1'' (Some 1) ''confirmada''),
                   (''r3'', reserva_de ''a1'' (Some 2) ''pendiente'')],
       terapias = [], turnos = [], fallaTransaccion = False\<rparr>, []) \<and>
   (2 ^ 53 + 2) -
   occupied
     \<lparr>actividades = [(''a1'', \<lparr>cupo = Some (2 ^ 53 + 2), actividad.nombre = Some ''Yoga''\<rparr>)],
      reservas = [(''r1'', reserva_de ''a1'' (Some (2 ^ 53)) ''confirmada''),
                  (''r2'', reserva_de ''a1'' (Some 1) ''confirmada''),
                  (''r3'', reserva_de ''a1'' (Some 2) ''pendiente'')],
      terapias = [], turnos = [], fallaTransaccion = False\<rparr>
     ''r3'' ''a1'' t0 = 1"
proof -
  have a: "js_num 9007199254740992 = 9007199254740992"
    by (simp add: js_num_def ulp.simps [of 9007199254740992] ulp_small)
  have b: "js_num 9007199254740993 = 9007199254740992"
    by (simp add: js_num_def ulp_53)
  have c: "js_num 9007199254740994 = 9007199254740994"
    by (simp add: js_num_def ulp.simps [of 9007199254740994] ulp_small)
  have d: "js_num 1 = 1" "js_num 2 = 2"
    by (simp_all add: js_num_exact)
  show ?thesis
    by (simp add: ejemplos transaccionReserva_def reservarActividad_def runTransaction_def
        reservasSnapshot_def occupied_def or_default_def js_add_def js_sub_def truthy_def
        doc_def a b c d)
qed

text \<open>
  C1, amended. For a reservation \<open>r\<close> whose \<^verbatim>\<open>actividadId\<close> is the document id of an
  activity \<open>a\<close> that exists, with its date, and a store whose capacity and seat counts
  add up, in absolute value, to less than \<open>2 ^ 53\<close>: the transaction of
  \<^verbatim>\<open>reservarActividad\<close> throws \<^verbatim>\<open>resource-exhausted\<close> exactly when the capacity less
  \<open>occupied\<close> is below the seats requested (1 when absent or zero), and otherwise it
  succeeds. When the store completes the transaction, the function marks the reservation
  \<^verbatim>\<open>fallida\<close> with the message of that error in the first case and writes nothing in
  the second.
\<close>

theorem capacity_admission:
  assumes "reserva.actividadId r = Some aid" and "plain_id aid" and "fechaActividad r = Some f"
    and "map_of (actividades s) aid = Some a" and "magnitude s a < 2 ^ 53"
  shows "((\<exists>m. transaccionReserva rid [aid] aid f (or_default (cupoTomado r) 1) s
                 = Inl (HttpsError resource_exhausted m))
          \<longleftrightarrow> or_default (cupo a) 0 - occupied s rid aid f < or_default (cupoTomado r) 1)
       \<and> (\<not> or_default (cupo a) 0 - occupied s rid aid f < or_default (cupoTomado r) 1
          \<longrightarrow> transaccionReserva rid [aid] aid f (or_default (cupoTomado r) 1) s = Inr ())
       \<and> (\<not> fallaTransaccion s \<longrightarrow>
            reservarActividad s (Some (rid, r))
            = (if or_default (cupo a) 0 - occupied s rid aid f < or_default (cupoTomado r) 1
               then (s\<lparr>reservas :=
                         update_doc rid
                           (\<lambda>x. x\<lparr>reserva.estado := Some ''fallida'',
                                  reserva.motivoFalla :=
                                    Some [Texto ''No hay cupos disponibles para la actividad '',
                                          Cadena (actividad.nombre a), Texto '' el '', Fecha f,
                                          Texto ''. Cupo actual: '',
                                          Numero (or_default (cupo a) 0 - occupied s rid aid f),
                                          Texto ''.'']\<rparr>)
                           (reservas s)\<rparr>,
                     [Update Reservas rid
                        (Fallida [Texto ''No hay cupos disponibles para la actividad '',
                                  Cadena (actividad.nombre a), Texto '' el '', Fecha f,
                                  Texto ''. Cupo actual: '',
                                  Numero (or_default (cupo a) 0 - occupied s rid aid f),
                                  Texto ''.''])])
               else (s, [])))"
proof -
  have g: "get (actividades s) [aid] = Some a"
    using assms(4) by simp
  have p: "aid \<noteq> []" using assms(2) by (simp add: plain_id_def)
  note tx = transaccionReserva_exact [OF g assms(5)]
  show ?thesis
    using assms(1,3) p
    by (simp add: tx reservarActividad_def runTransaction_def doc_plain [OF assms(2)] truthy_def
        commit_def motivoDeError_def cambiar_reserva_def [abs_def])
qed

text \<open>
  Capacity 5 and two other reservations of 2 seats: a third of 2 seats is refused with one
  seat left; with one other reservation, a request without \<^verbatim>\<open>cupoTomado\<close> is admitted.
\<close>

theorem capacity_admission_witness:
  "reservarActividad
     (tienda [(''r1'', reserva_de ''a1'' (Some 2) ''confirmada''),
              (''r2'', reserva_de ''a1'' (Some 2) ''pendiente''),
              (''r3'', reserva_de ''a1'' (Some 2) ''pendiente'')] [])
     (Some (''r3'', reserva_de ''a1'' (Some 2) ''pendiente''))
   = (tienda [(''r1'', reserva_de ''a1'' (Some 2) ''confirmada''),
              (''r2'', reserva_de ''a1'' (Some 2) ''pendiente''),
              (''r3'', (reserva_de ''a1'' (Some 2) ''pendiente'')
                 \<lparr>reserva.estado := Some ''fallida'',
                  reserva.motivoFalla :=
                    Some [Texto ''No hay cupos disponibles para la actividad '',
                          Cadena (Some ''Yoga''), Texto '' el '', Fecha t0,
                          Texto ''. Cupo actual: '', Numero 1, Texto ''.'']\<rparr>)] [],
      [Update Reservas ''r3''
         (Fallida [Texto ''No hay cupos disponibles para la actividad '', Cadena (Some ''Yoga''),
                   Texto '' el '', Fecha t0, Texto ''. Cupo actual: '', Numero 1, Texto ''.''])]) \<and>
   reservarActividad
     (tienda [(''r1'', reserva_de ''a1'' (Some 2) ''confirmada''),
              (''r3'', reserva_de ''a1'' None ''pendiente'')] [])
     (Some (''r3'', reserva_de ''a1'' None ''pendiente''))
   = (tienda [(''r1'', reserva_de ''a1'' (Some 2) ''confirmada''),
              (''r3'', reserva_de ''a1'' None ''pendiente'')] [], [])"
proof -
  have d: "js_num 2 = 2" "js_num 5 = 5"
    by (simp_all add: js_num_exact)
  show ?thesis
    using capacity_admission [of "reserva_de ''a1'' (Some 2) ''pendiente''" "''a1''" t0
        "tienda [(''r1'', reserva_de ''a1'' (Some 2) ''confirmada''),
                 (''r2'', reserva_de ''a1'' (Some 2) ''pendiente''),
                 (''r3'', reserva_de ''a1'' (Some 2) ''pendiente'')] []" yoga "''r3''"]
      capacity_admission [of "reserva_de ''a1'' None ''pendiente''" "''a1''" t0
        "tienda [(''r1'', reserva_de ''a1'' (Some 2) ''confirmada''),
                 (''r3'', reserva_de ''a1'' None ''pendiente'')] []" yoga "''r3''"]
    by (simp add: ejemplos occupied_def or_default_def magnitude_def plain_id_def update_doc_def d)
qed

section \<open>Suspensions that do not cascade\<close>

text \<open>
  C8. When the suspension document was deleted (no snapshot after the write), or its
  \<^verbatim>\<open>afectaReservasExistentes\<close> is false or absent, \<^verbatim>\<open>procesarSuspension\<close> leaves the
  store as it is and writes nothing, whatever the store holds.
\<close>

theorem cascade_noop:
  "(after ch = None \<or> (\<exists>sus. after ch = Some sus \<and> afectaReservasExistentes sus \<noteq> Some True))
   \<longrightarrow> procesarSuspension ahora s (Some ch) = (s, [])"
  by (auto simp: procesarSuspension_def)

theorem cascade_noop_witness:
  "procesarSuspension t0 (tienda [(''r1'', reserva_de ''a1'' (Some 2) ''confirmada'')] [])
     (Some \<lparr>before = None, after = Some (cierre ''actividad'' (Some ''a1'') (Some False))\<rparr>)
   = (tienda [(''r1'', reserva_de ''a1'' (Some 2) ''confirmada'')] [], [])"
  using cascade_noop [of "\<lparr>before = None, after = Some (cierre ''actividad'' (Some ''a1'') (Some False))\<rparr>"
      t0 "tienda [(''r1'', reserva_de ''a1'' (Some 2) ''confirmada'')] []"]
  by (simp add: cierre_def)

section \<open>Writes of the admission functions\<close>

lemma map_of_update_doc:
  "map_of (update_doc i f c) j = (if j = i then map_option f (map_of c j) else map_of c j)"
  by (induction c) (auto simp: update_doc_def)

lemma map_of_delete_doc:
  "map_of (delete_doc i c) j = (if j = i then None else map_of c j)"
  by (induction c) (auto simp: delete_doc_def)

lemma cambiar_reserva_Fallida:
  "cambiar_reserva (Fallida m) = (\<lambda>x. x\<lparr>reserva.estado := Some ''fallida'', reserva.motivoFalla := Some m\<rparr>)"
  by (rule ext) (simp add: cambiar_reserva_def)

text \<open>
  C9. A reservation without \<^verbatim>\<open>actividadId\<close> (absent or empty) or without
  \<^verbatim>\<open>fechaActividad\<close>, and an appointment without \<^verbatim>\<open>terapiaId\<close>, \<^verbatim>\<open>fechaTurno\<close> or
  \<^verbatim>\<open>usuarioId\<close>, is deleted: the delete is the only write, the document is gone from
  its collection, and the result does not depend on any activity, therapy or other
  booking of the store.
\<close>

theorem incomplete_deleted:
  "(\<not> truthy (reserva.actividadId r) \<or> fechaActividad r = None \<longrightarrow>
      reservarActividad s (Some (rid, r))
        = (s\<lparr>reservas := filter (\<lambda>(j, d). j \<noteq> rid) (reservas s)\<rparr>, [Delete Reservas rid]) \<and>
      map_of (reservas (fst (reservarActividad s (Some (rid, r))))) rid = None) \<and>
   (\<not> truthy (terapiaId t) \<or> fechaTurno t = None \<or> \<not> truthy (usuarioId t) \<longrightarrow>
      reservarTurno s (Some (tid, t))
        = (s\<lparr>turnos := filter (\<lambda>(j, d). j \<noteq> tid) (turnos s)\<rparr>, [Delete Turnos tid]) \<and>
      map_of (turnos (fst (reservarTurno s (Some (tid, t))))) tid = None)"
proof -
  have del: "map_of (filter (\<lambda>(j, d). j \<noteq> i) c) i = None" for i :: string and c :: "'b coleccion"
    using map_of_delete_doc [of i c i] by (simp add: delete_doc_def)
  show ?thesis
    by (auto simp: reservarActividad_def reservarTurno_def commit_def delete_doc_def truthy_def del
        split: option.splits)
qed

theorem incomplete_deleted_witness:
  "reservarActividad (tienda [(''r1'', reserva_de [] None ''pendiente'')] []) 
     (Some (''r1'', reserva_de [] None ''pendiente''))
   = (tienda [] [], [Delete Reservas ''r1'']) \<and>
   reservarTurno (tienda [] [(''c1'', turno_de None t0 ''pendiente'')])
     (Some (''c1'', turno_de None t0 ''pendiente''))
   = (tienda [] [], [Delete Turnos ''c1''])"
  using incomplete_deleted [of "reserva_de [] None ''pendiente''"
      "tienda [(''r1'', reserva_de [] None ''pendiente'')] []" "''r1''"
      "turno_de None t0 ''pendiente''" "''c1''"]
    incomplete_deleted [of "reserva_de [] None ''pendiente''"
      "tienda [] [(''c1'', turno_de None t0 ''pendiente'')]" "''r1''"
      "turno_de None t0 ''pendiente''" "''c1''"]
  by (simp add: ejemplos truthy_def)

text \<open>
  C6. When the transaction of a complete reservation or appointment aborts with \<open>e\<close>
  (thrown by its body, or the error of a store that does not complete it), the function
  makes exactly one write: an update of the triggering document to \<^verbatim>\<open>fallida\<close> whose
  \<^verbatim>\<open>motivoFalla\<close> is the message of \<open>e\<close> when \<open>e\<close> is an \<^verbatim>\<open>HttpsError\<close>, and the
  generic text otherwise; the document, when it is in the store, has \<^verbatim>\<open>estado\<close>
  \<^verbatim>\<open>fallida\<close> afterwards. The transaction runs for the reference \<open>ref\<close> that
  \<^verbatim>\<open>doc\<close> gave.
\<close>

theorem failed_write:
  "(reserva.actividadId r = Some aid \<and> aid \<noteq> [] \<and> fechaActividad r = Some f \<and>
    doc (Some aid) = Some ref \<and>
    runTransaction s (transaccionReserva rid ref aid f (or_default (cupoTomado r) 1)) = Inl e \<longrightarrow>
      snd (reservarActividad s (Some (rid, r)))
        = [Update Reservas rid
             (Fallida (case e of HttpsError c m \<Rightarrow> m
                       | ErrorInesperado \<Rightarrow> [Texto ''Error interno del servidor.'']))] \<and>
      map_option reserva.estado (map_of (reservas (fst (reservarActividad s (Some (rid, r))))) rid)
        = map_option (\<lambda>x. Some ''fallida'') (map_of (reservas s) rid)) \<and>
   (terapiaId t = Some tid \<and> tid \<noteq> [] \<and> fechaTurno t = Some g \<and> truthy (usuarioId t) \<and>
    doc (Some tid) = Some ref' \<and>
    runTransaction s (transaccionTurno i ref' tid g) = Inl e' \<longrightarrow>
      snd (reservarTurno s (Some (i, t)))
        = [Update Turnos i
             (Fallida (case e' of HttpsError c m \<Rightarrow> m
                       | ErrorInesperado \<Rightarrow> [Texto ''Error interno del servidor.'']))] \<and>
      map_option turno.estado (map_of (turnos (fst (reservarTurno s (Some (i, t))))) i)
        = map_option (\<lambda>x. Some ''fallida'') (map_of (turnos s) i))"
  by (auto simp: reservarActividad_def reservarTurno_def commit_def motivoDeError_def truthy_def
      map_of_update_doc cambiar_reserva_def cambiar_turno_def option.map_comp comp_def
      split: excepcion.splits)

text \<open>
  A reservation on a store that does not complete the transaction, a reservation of an
  activity that does not exist, and an appointment whose transaction meets a candidate
  without \<^verbatim>\<open>terapiaId\<close>.
\<close>

theorem failed_write_witness:
  "snd (reservarActividad
          ((tienda [(''r1'', reserva_de ''a1'' None ''pendiente'')] [])\<lparr>fallaTransaccion := True\<rparr>)
          (Some (''r1'', reserva_de ''a1'' None ''pendiente'')))
   = [Update Reservas ''r1'' (Fallida [Texto ''Error interno del servidor.''])] \<and>
   snd (reservarActividad (tienda [(''r1'', reserva_de ''a9'' None ''pendiente'')] [])
          (Some (''r1'', reserva_de ''a9'' None ''pendiente'')))
   = [Update Reservas ''r1''
        (Fallida [Texto ''La actividad con ID '', Cadena (Some ''a9''), Texto '' no existe.''])] \<and>
   snd (reservarTurno
          (tienda [] [(''c0'', turno_de None t0 ''confirmado''),
                      (''c1'', turno_de (Some ''t1'') t0 ''pendiente'')])
          (Some (''c1'', turno_de (Some ''t1'') t0 ''pendiente'')))
   = [Update Turnos ''c1'' (Fallida [Texto ''Error interno del servidor.''])]"
proof -
  have d: "js_num 60 = 60" "js_num 3600 = 3600" "js_num 39600 = 39600"
    by (simp_all add: js_num_exact)
  show ?thesis
    using failed_write [where r = "reserva_de ''a1'' None ''pendiente''" and aid = "''a1''"
        and f = t0 and ref = "[''a1'']" and rid = "''r1''" and e = ErrorInesperado
        and s = "(tienda [(''r1'', reserva_de ''a1'' None ''pendiente'')] [])\<lparr>fallaTransaccion := True\<rparr>"]
      failed_write [where r = "reserva_de ''a9'' None ''pendiente''" and aid = "''a9''"
        and f = t0 and ref = "[''a9'']" and rid = "''r1''"
        and e = "HttpsError not_found
                   [Texto ''La actividad con ID '', Cadena (Some ''a9''), Texto '' no existe.'']"
        and s = "tienda [(''r1'', reserva_de ''a9'' None ''pendiente'')] []"]
      failed_write [where t = "turno_de (Some ''t1'') t0 ''pendiente''" and tid = "''t1''"
        and g = t0 and ref' = "[''t1'']" and i = "''c1''" and e' = ErrorInesperado
        and s = "tienda [] [(''c0'', turno_de None t0 ''confirmado''),
                            (''c1'', turno_de (Some ''t1'') t0 ''pendiente'')]"]
    by (simp add: ejemplos truthy_def or_default_def transaccionReserva_def transaccionTurno_def
        runTransaction_def solapamientosSnapshot_def ts_le_def doc_def nuevoTimestamp_def
        js_add_def js_mul_def d)
qed

section \<open>An activity without capacity\<close>

lemma cupoOcupado_nonneg:
  assumes "0 \<le> acc" and "\<forall>(i, x) \<in> set docs. 0 \<le> or_default (cupoTomado x) 1"
  shows "0 \<le> cupoOcupado rid docs acc"
  using assms
proof (induction docs arbitrary: acc)
  case Nil
  then show ?case by simp
next
  case (Cons x docs)
  obtain i r where x: "x = (i, r)" by (cases x)
  from Cons.prems x have v: "0 \<le> or_default (cupoTomado r) 1"
    and rest: "\<forall>(i, x) \<in> set docs. 0 \<le> or_default (cupoTomado x) 1" by auto
  from v Cons.prems(1) have "0 \<le> js_add acc (or_default (cupoTomado r) 1)"
    by (simp add: js_add_def js_num_nonneg)
  with rest Cons.prems(1) show ?case
    unfolding x by (simp add: Cons.IH)
qed

text \<open>
  C10, as the specification states it: it fails. The activity has no \<^verbatim>\<open>cupo\<close>, and a
  confirmed reservation of the store has \<^verbatim>\<open>cupoTomado\<close> \<open>- 3\<close>: the code computes 3 free
  seats, admits the request for 2 seats and writes nothing.
\<close>

theorem negative_seats_admitted:
  "reservarActividad
     \<lparr>actividades = [(''a1'', \<lparr>cupo = None, actividad.nombre = Some ''Yoga''\<rparr>)],
      reservas = [(''r0'', reserva_de ''a1'' (Some (- 3)) ''confirmada''),
                  (''r1'', reserva_de ''a1'' (Some 2) ''pendiente'')],
      terapias = [], turnos = [], fallaTransaccion = False\<rparr>
     (Some (''r1'', reserva_de ''a1'' (Some 2) ''pendiente''))
   = (\<lparr>actividades = [(''a1'', \<lparr>cupo = None, actividad.nombre = Some ''Yoga''\<rparr>)],
       reservas = [(''r0'', reserva_de ''a1'' (Some (- 3)) ''confirmada''),
                   (''r1'', reserva_de ''a1'' (Some 2) ''pendiente'')],
       terapias = [], turnos = [], fallaTransaccion = False\<rparr>, []) \<and>
   transaccionReserva ''r1'' [''a1''] ''a1'' t0 2
     \<lparr>actividades = [(''a1'', \<lparr>cupo = None, actividad.nombre = Some ''Yoga''\<rparr>)],
      reservas = [(''r0'', reserva_de ''a1'' (Some (- 3)) ''confirmada''),
                  (''r1'', reserva_de ''a1'' (Some 2) ''pendiente'')],
      terapias = [], turnos = [], fallaTransaccion = False\<rparr>
   = Inr ()"
proof -
  have d: "js_num 2 = 2" "js_num 3 = 3" "js_num (- 3) = - 3"
    by (simp_all add: js_num_exact)
  show ?thesis
    by (simp add: ejemplos transaccionReserva_def reservarActividad_def runTransaction_def
        reservasSnapshot_def or_default_def js_add_def js_sub_def truthy_def doc_def d)
qed

text \<open>
  C10, amended. When the activity document exists and its \<^verbatim>\<open>cupo\<close> is absent or 0, no
  reservation of the store counts for a negative number of seats, and the store completes
  the transaction, a complete reservation that names the activity by its document id and
  asks for at least one seat is refused with \<^verbatim>\<open>resource-exhausted\<close> and updated to
  \<^verbatim>\<open>fallida\<close> with that message.
\<close>

theorem zero_capacity_rejects:
  assumes "reserva.actividadId r = Some aid" and "plain_id aid" and "fechaActividad r = Some f"
    and "map_of (actividades s) aid = Some a"
    and "cupo a = None \<or> cupo a = Some 0"
    and "\<not> fallaTransaccion s"
    and "1 \<le> or_default (cupoTomado r) 1"
    and "\<forall>(i, x) \<in> set (reservas s). 0 \<le> or_default (cupoTomado x) 1"
  shows "\<exists>m. transaccionReserva rid [aid] aid f (or_default (cupoTomado r) 1) s
               = Inl (HttpsError resource_exhausted m) \<and>
             reservarActividad s (Some (rid, r))
               = (s\<lparr>reservas := update_doc rid (cambiar_reserva (Fallida m)) (reservas s)\<rparr>,
                  [Update Reservas rid (Fallida m)]) \<and>
             map_of (reservas (fst (reservarActividad s (Some (rid, r))))) rid
               = map_option (\<lambda>x. x\<lparr>reserva.estado := Some ''fallida'', reserva.motivoFalla := Some m\<rparr>)
                   (map_of (reservas s) rid)"
proof -
  have cap: "or_default (cupo a) 0 = 0"
    using assms(5) by (auto simp: or_default_def)
  have "\<forall>(i, x) \<in> set (reservasSnapshot s aid f). 0 \<le> or_default (cupoTomado x) 1"
    using assms(8) by (auto simp: reservasSnapshot_def)
  then have "0 \<le> cupoOcupado rid (reservasSnapshot s aid f) 0"
    by (intro cupoOcupado_nonneg) simp_all
  then have "js_sub 0 (cupoOcupado rid (reservasSnapshot s aid f) 0) \<le> 0"
    by (simp add: js_sub_def js_num_nonpos)
  with assms(7) have lt: "js_sub 0 (cupoOcupado rid (reservasSnapshot s aid f) 0)
                          < or_default (cupoTomado r) 1"
    by linarith
  have p: "aid \<noteq> []" using assms(2) by (simp add: plain_id_def)
  show ?thesis
    using assms(1,3,4,6) p lt
    by (simp add: transaccionReserva_def reservarActividad_def runTransaction_def Let_def cap
        doc_plain [OF assms(2)] truthy_def commit_def motivoDeError_def map_of_update_doc
        cambiar_reserva_Fallida)
qed

theorem zero_capacity_rejects_witness:
  "reservarActividad
     \<lparr>actividades = [(''a1'', \<lparr>cupo = None, actividad.nombre = Some ''Yoga''\<rparr>)],
      reservas = [(''r1'', reserva_de ''a1'' None ''pendiente'')], terapias = [], turnos = [],
      fallaTransaccion = False\<rparr>
     (Some (''r1'', reserva_de ''a1'' None ''pendiente''))
   = (\<lparr>actividades = [(''a1'', \<lparr>cupo = None, actividad.nombre = Some ''Yoga''\<rparr>)],
       reservas =
         [(''r1'', (reserva_de ''a1'' None ''pendiente'')
             \<lparr>reserva.estado := Some ''fallida'',
              reserva.motivoFalla :=
                Some [Texto ''No hay cupos disponibles para la actividad '', Cadena (Some ''Yoga''),
                      Texto '' el '', Fecha t0, Texto ''. Cupo actual: '', Numero 0, Texto ''.'']\<rparr>)],
       terapias = [], turnos = [], fallaTransaccion = False\<rparr>,
      [Update Reservas ''r1''
         (Fallida [Texto ''No hay cupos disponibles para la actividad '', Cadena (Some ''Yoga''),
                   Texto '' el '', Fecha t0, Texto ''. Cupo actual: '', Numero 0, Texto ''.''])])"
proof -
  have d: "js_num 0 = 0"
    by (simp add: js_num_exact)
  show ?thesis
    using zero_capacity_rejects [of "reserva_de ''a1'' None ''pendiente''" "''a1''" t0
        "\<lparr>actividades = [(''a1'', \<lparr>cupo = None, actividad.nombre = Some ''Yoga''\<rparr>)],
          reservas = [(''r1'', reserva_de ''a1'' None ''pendiente'')], terapias = [], turnos = [],
          fallaTransaccion = False\<rparr>"
        "\<lparr>cupo = None, actividad.nombre = Some ''Yoga''\<rparr>" "''r1''"]
    by (simp add: ejemplos or_default_def transaccionReserva_def reservasSnapshot_def
        update_doc_def cambiar_reserva_def plain_id_def js_sub_def d)
qed

section \<open>The therapy of an appointment\<close>

lemma buscarSolapamiento_cases:
  "buscarSolapamiento s snapId pid fecha fin docs = Inl e \<Longrightarrow> e = ErrorInesperado"
  by (induction docs) (auto simp: Let_def split: if_splits option.splits)

lemma transaccionTurno_cases:
  assumes "get (terapias s) ref = Some x" and "truthy (profesionalId x)"
  shows "transaccionTurno i ref tid g s = Inr () \<or>
         transaccionTurno i ref tid g s = Inl ErrorInesperado \<or>
         transaccionTurno i ref tid g s
           = Inl (HttpsError already_exists
                    [Texto ''El terapeuta ya tiene un turno reservado para esa franja horaria.''])"
  using assms
  by (auto simp: transaccionTurno_def Let_def split: option.splits sum.splits
      dest: buscarSolapamiento_cases)

lemma transaccionTurno_not_found:
  "get (terapias s) ref = None \<Longrightarrow>
   transaccionTurno i ref tid g s
   = Inl (HttpsError not_found
            [Texto ''La terapia con ID '', Cadena (Some tid), Texto '' no existe.''])"
  by (simp add: transaccionTurno_def)

lemma transaccionTurno_failed_precondition:
  "get (terapias s) ref = Some x \<Longrightarrow> \<not> truthy (profesionalId x) \<Longrightarrow>
   transaccionTurno i ref tid g s
   = Inl (HttpsError failed_precondition
            [Texto ''La terapia '', Cadena (terapia.nombre x),
             Texto '' no tiene un profesional asignado.''])"
  by (simp add: transaccionTurno_def)

lemma reservarTurno_complete:
  assumes "terapiaId t = Some tid" and "plain_id tid" and "fechaTurno t = Some g"
    and "truthy (usuarioId t)" and "\<not> fallaTransaccion s"
  shows "snd (reservarTurno s (Some (i, t)))
         = (case transaccionTurno i [tid] tid g s of
              Inr u \<Rightarrow> []
            | Inl e \<Rightarrow> [Update Turnos i (Fallida (motivoDeError e))])"
proof -
  have p: "tid \<noteq> []" using assms(2) by (simp add: plain_id_def)
  show ?thesis
    using assms(1,3,4,5) p
    by (simp add: reservarTurno_def runTransaction_def doc_plain [OF assms(2)] truthy_def
        commit_def split: sum.splits)
qed

text \<open>
  C7, as the specification states it: it fails. The appointment is complete and its
  \<^verbatim>\<open>terapiaId\<close> is \<^verbatim>\<open>t1/x\<close>; no therapy has that id, and yet the function does not
  fail with \<^verbatim>\<open>not-found\<close>: \<^verbatim>\<open>doc\<close> throws before the transaction and nothing is
  written.
\<close>

theorem invalid_path_no_write:
  "reservarTurno (tienda [] [(''c1'', turno_de (Some ''t1/x'') t0 ''pendiente'')])
     (Some (''c1'', turno_de (Some ''t1/x'') t0 ''pendiente''))
   = (tienda [] [(''c1'', turno_de (Some ''t1/x'') t0 ''pendiente'')], []) \<and>
   map_of (terapias (tienda [] [(''c1'', turno_de (Some ''t1/x'') t0 ''pendiente'')])) ''t1/x''
   = None"
  by (simp add: ejemplos reservarTurno_def truthy_def doc_def)

text \<open>
  C7, amended. For a complete appointment whose \<^verbatim>\<open>terapiaId\<close> is a document id, on a
  store that completes the transaction: \<^verbatim>\<open>reservarTurno\<close> fails with \<^verbatim>\<open>not-found\<close>
  (the transaction throws it and the appointment is marked \<^verbatim>\<open>fallida\<close> with its message)
  exactly when there is no therapy document with that id, and with
  \<^verbatim>\<open>failed-precondition\<close> exactly when the therapy exists and its \<^verbatim>\<open>profesionalId\<close> is
  absent or empty; in both cases the result is the same whatever the collection of
  appointments holds.
\<close>

theorem therapy_preconditions:
  assumes "terapiaId t = Some tid" and "plain_id tid" and "fechaTurno t = Some g"
    and "truthy (usuarioId t)" and "\<not> fallaTransaccion s"
  shows "(snd (reservarTurno s (Some (i, t)))
            = [Update Turnos i
                 (Fallida [Texto ''La terapia con ID '', Cadena (Some tid), Texto '' no existe.''])]
          \<longleftrightarrow> map_of (terapias s) tid = None) \<and>
         ((\<exists>nm. snd (reservarTurno s (Some (i, t)))
                  = [Update Turnos i
                       (Fallida [Texto ''La terapia '', Cadena nm,
                                 Texto '' no tiene un profesional asignado.''])])
          \<longleftrightarrow> (\<exists>x. map_of (terapias s) tid = Some x \<and> \<not> truthy (profesionalId x))) \<and>
         ((\<exists>m. transaccionTurno i [tid] tid g s = Inl (HttpsError not_found m))
          \<longleftrightarrow> map_of (terapias s) tid = None) \<and>
         ((\<exists>m. transaccionTurno i [tid] tid g s = Inl (HttpsError failed_precondition m))
          \<longleftrightarrow> (\<exists>x. map_of (terapias s) tid = Some x \<and> \<not> truthy (profesionalId x))) \<and>
         (map_of (terapias s) tid = None \<or>
          (\<exists>x. map_of (terapias s) tid = Some x \<and> \<not> truthy (profesionalId x))
            \<longrightarrow> transaccionTurno i [tid] tid g (s\<lparr>turnos := ts\<rparr>) = transaccionTurno i [tid] tid g s \<and>
                snd (reservarTurno (s\<lparr>turnos := ts\<rparr>) (Some (i, t)))
                = snd (reservarTurno s (Some (i, t))))"
proof (cases "map_of (terapias s) tid")
  case None
  then have g: "get (terapias s) [tid] = None" "get (terapias (s\<lparr>turnos := ts\<rparr>)) [tid] = None"
    by simp_all
  have f: "\<not> fallaTransaccion (s\<lparr>turnos := ts\<rparr>)" using assms(5) by simp
  show ?thesis
    using None
    by (simp add: reservarTurno_complete [OF assms] reservarTurno_complete [OF assms(1-4) f]
        transaccionTurno_not_found [OF g(1)] transaccionTurno_not_found [OF g(2)]
        motivoDeError_def)
next
  case (Some x)
  then have g: "get (terapias s) [tid] = Some x" "get (terapias (s\<lparr>turnos := ts\<rparr>)) [tid] = Some x"
    by simp_all
  have f: "\<not> fallaTransaccion (s\<lparr>turnos := ts\<rparr>)" using assms(5) by simp
  show ?thesis
  proof (cases "truthy (profesionalId x)")
    case False
    show ?thesis
      using Some False
      by (simp add: reservarTurno_complete [OF assms] reservarTurno_complete [OF assms(1-4) f]
          transaccionTurno_failed_precondition [OF g(1) False]
          transaccionTurno_failed_precondition [OF g(2) False] motivoDeError_def)
  next
    case True
    from transaccionTurno_cases [OF g(1) True, of i tid g] show ?thesis
      using Some True
      by (auto simp: reservarTurno_complete [OF assms] motivoDeError_def)
  qed
qed

theorem therapy_preconditions_witness:
  "snd (reservarTurno (tienda [] [(''c0'', turno_de None t0 ''confirmado'')])
          (Some (''c1'', turno_de (Some ''t9'') t0 ''pendiente'')))
   = [Update Turnos ''c1''
        (Fallida [Texto ''La terapia con ID '', Cadena (Some ''t9''), Texto '' no existe.''])] \<and>
   snd (reservarTurno
          \<lparr>actividades = [], reservas = [],
           terapias = [(''t2'', \<lparr>duracionMinutos = Some 30, profesionalId = None,
                                terapia.nombre = Some ''Reiki''\<rparr>)],
           turnos = [(''c0'', turno_de None t0 ''confirmado'')], fallaTransaccion = False\<rparr>
          (Some (''c1'', turno_de (Some ''t2'') t0 ''pendiente'')))
   = [Update Turnos ''c1''
        (Fallida [Texto ''La terapia '', Cadena (Some ''Reiki''),
                  Texto '' no tiene un profesional asignado.''])]"
  using therapy_preconditions [of "turno_de (Some ''t9'') t0 ''pendiente''" "''t9''" t0
      "tienda [] [(''c0'', turno_de None t0 ''confirmado'')]" "''c1''" "[]"]
    therapy_preconditions [of "turno_de (Some ''t2'') t0 ''pendiente''" "''t2''" t0
      "\<lparr>actividades = [], reservas = [],
        terapias = [(''t2'', \<lparr>duracionMinutos = Some 30, profesionalId = None,
                             terapia.nombre = Some ''Reiki''\<rparr>)],
        turnos = [(''c0'', turno_de None t0 ''confirmado'')], fallaTransaccion = False\<rparr>"
      "''c1''" "[]"]
  by (simp add: ejemplos truthy_def plain_id_def reservarTurno_def runTransaction_def doc_def
      transaccionTurno_def commit_def motivoDeError_def)

section \<open>Overlap admission\<close>

text \<open>
  C2. The code compares the \<^verbatim>\<open>seconds\<close> of the timestamps only. The therapy lasts 60
  minutes; the confirmed appointment \<open>c1\<close> of the same practitioner starts at second
  39600, and the new appointment starts \<open>n\<close> nanoseconds after second 36000, so it ends
  \<open>n\<close> nanoseconds after \<open>c1\<close> starts. The two intervals overlap in the order of the
  timestamps, as the specification and the comments of the code state the test, and the
  new appointment is admitted: the transaction succeeds and nothing is written.
\<close>

theorem subsecond_overlap_admitted:
  assumes "0 < n" and "n \<le> 999999999"
  shows "reservarTurno
           (tienda [] [(''c1'', turno_de (Some ''t1'') \<lparr>seconds = 39600, nanoseconds = 0\<rparr> ''confirmado''),
                       (''c2'', turno_de (Some ''t1'') \<lparr>seconds = 36000, nanoseconds = n\<rparr> ''pendiente'')])
           (Some (''c2'', turno_de (Some ''t1'') \<lparr>seconds = 36000, nanoseconds = n\<rparr> ''pendiente''))
         = (tienda [] [(''c1'', turno_de (Some ''t1'') \<lparr>seconds = 39600, nanoseconds = 0\<rparr> ''confirmado''),
                       (''c2'', turno_de (Some ''t1'') \<lparr>seconds = 36000, nanoseconds = n\<rparr> ''pendiente'')],
            []) \<and>
         transaccionTurno ''c2'' [''t1''] ''t1'' \<lparr>seconds = 36000, nanoseconds = n\<rparr>
           (tienda [] [(''c1'', turno_de (Some ''t1'') \<lparr>seconds = 39600, nanoseconds = 0\<rparr> ''confirmado''),
                       (''c2'', turno_de (Some ''t1'') \<lparr>seconds = 36000, nanoseconds = n\<rparr> ''pendiente'')])
         = Inr () \<and>
         rival
           (tienda [] [(''c1'', turno_de (Some ''t1'') \<lparr>seconds = 39600, nanoseconds = 0\<rparr> ''confirmado''),
                       (''c2'', turno_de (Some ''t1'') \<lparr>seconds = 36000, nanoseconds = n\<rparr> ''pendiente'')])
           ''c2'' ''p1''
           (''c1'', turno_de (Some ''t1'') \<lparr>seconds = 39600, nanoseconds = 0\<rparr> ''confirmado'') \<and>
         overlaps
           (tienda [] [(''c1'', turno_de (Some ''t1'') \<lparr>seconds = 39600, nanoseconds = 0\<rparr> ''confirmado''),
                       (''c2'', turno_de (Some ''t1'') \<lparr>seconds = 36000, nanoseconds = n\<rparr> ''pendiente'')])
           \<lparr>seconds = 36000, nanoseconds = n\<rparr>
           (plus_minutes \<lparr>seconds = 36000, nanoseconds = n\<rparr> 60)
           (turno_de (Some ''t1'') \<lparr>seconds = 39600, nanoseconds = 0\<rparr> ''confirmado'')"
proof -
  have d: "js_num 60 = 60" "js_num 3600 = 3600" "js_num 39600 = 39600" "js_num 43200 = 43200"
    by (simp_all add: js_num_exact)
  show ?thesis
    using assms
    by (simp add: ejemplos reservarTurno_def runTransaction_def transaccionTurno_def
        solapamientosSnapshot_def truthy_def or_default_def doc_def nuevoTimestamp_def
        js_add_def js_mul_def ts_le_def ts_less_def rival_def overlaps_def practitioner_def
        duration_def plus_minutes_def d)
qed

text \<open>The same one microsecond into the second.\<close>

theorem subsecond_overlap_admitted_witness:
  "reservarTurno
     (tienda [] [(''c1'', turno_de (Some ''t1'') \<lparr>seconds = 39600, nanoseconds = 0\<rparr> ''confirmado''),
                 (''c2'', turno_de (Some ''t1'') \<lparr>seconds = 36000, nanoseconds = 1000\<rparr> ''pendiente'')])
     (Some (''c2'', turno_de (Some ''t1'') \<lparr>seconds = 36000, nanoseconds = 1000\<rparr> ''pendiente''))
   = (tienda [] [(''c1'', turno_de (Some ''t1'') \<lparr>seconds = 39600, nanoseconds = 0\<rparr> ''confirmado''),
                 (''c2'', turno_de (Some ''t1'') \<lparr>seconds = 36000, nanoseconds = 1000\<rparr> ''pendiente'')],
      []) \<and>
   overlaps
     (tienda [] [(''c1'', turno_de (Some ''t1'') \<lparr>seconds = 39600, nanoseconds = 0\<rparr> ''confirmado''),
                 (''c2'', turno_de (Some ''t1'') \<lparr>seconds = 36000, nanoseconds = 1000\<rparr> ''pendiente'')])
     \<lparr>seconds = 36000, nanoseconds = 1000\<rparr>
     \<lparr>seconds = 39600, nanoseconds = 1000\<rparr>
     (turno_de (Some ''t1'') \<lparr>seconds = 39600, nanoseconds = 0\<rparr> ''confirmado'')"
  using subsecond_overlap_admitted [of 1000]
  by (simp add: plus_minutes_def)

section \<open>The cascade of a suspension\<close>

lemma cambiar_reserva_idem: "cambiar_reserva c (cambiar_reserva c r) = cambiar_reserva c r"
  by (cases c) (simp_all add: cambiar_reserva_def)

lemma cambiar_turno_idem: "cambiar_turno c (cambiar_turno c r) = cambiar_turno c r"
  by (cases c) (simp_all add: cambiar_turno_def)

lemma update_doc_many:
  assumes "\<And>d. f (f d) = f d"
  shows "map (\<lambda>(j, d). if j \<in> A then (j, f d) else (j, d)) (update_doc i f c)
         = map (\<lambda>(j, d). if j \<in> insert i A then (j, f d) else (j, d)) c"
  by (induction c) (auto simp: update_doc_def assms)

lemma commit_cancelar_reservas:
  "fst (commit (cancelar Reservas m t docs) s)
   = s\<lparr>reservas := map (\<lambda>(j, r). if j \<in> fst ` set docs
                                 then (j, cambiar_reserva (CanceladoPorAdmin m t) r) else (j, r))
                      (reservas s)\<rparr>"
proof (induction docs arbitrary: s)
  case Nil
  have "map (\<lambda>(j, r). (j, r)) (reservas s) = reservas s"
    by (induction "reservas s") auto
  then show ?case by (simp add: commit_def cancelar_def case_prod_unfold)
next
  case (Cons x docs)
  obtain i d where x: "x = (i, d)" by (cases x)
  have "fst (commit (cancelar Reservas m t (x # docs)) s)
        = fst (commit (cancelar Reservas m t docs) (aplicar s (Update Reservas i (CanceladoPorAdmin m t))))"
    by (simp add: commit_def cancelar_def x)
  also have "\<dots> = s\<lparr>reservas := map (\<lambda>(j, r). if j \<in> fst ` set docs
                                 then (j, cambiar_reserva (CanceladoPorAdmin m t) r) else (j, r))
                      (update_doc i (cambiar_reserva (CanceladoPorAdmin m t)) (reservas s))\<rparr>"
    by (simp add: Cons.IH)
  finally show ?case
    by (simp add: update_doc_many [OF cambiar_reserva_idem] x)
qed

lemma commit_cancelar_turnos:
  "fst (commit (cancelar Turnos m t docs) s)
   = s\<lparr>turnos := map (\<lambda>(j, r). if j \<in> fst ` set docs
                                 then (j, cambiar_turno (CanceladoPorAdmin m t) r) else (j, r))
                      (turnos s)\<rparr>"
proof (induction docs arbitrary: s)
  case Nil
  have "map (\<lambda>(j, r). (j, r)) (turnos s) = turnos s"
    by (induction "turnos s") auto
  then show ?case by (simp add: commit_def cancelar_def case_prod_unfold)
next
  case (Cons x docs)
  obtain i d where x: "x = (i, d)" by (cases x)
  have "fst (commit (cancelar Turnos m t (x # docs)) s)
        = fst (commit (cancelar Turnos m t docs) (aplicar s (Update Turnos i (CanceladoPorAdmin m t))))"
    by (simp add: commit_def cancelar_def x)
  also have "\<dots> = s\<lparr>turnos := map (\<lambda>(j, r). if j \<in> fst ` set docs
                                 then (j, cambiar_turno (CanceladoPorAdmin m t) r) else (j, r))
                      (update_doc i (cambiar_turno (CanceladoPorAdmin m t)) (turnos s))\<rparr>"
    by (simp add: Cons.IH)
  finally show ?case
    by (simp add: update_doc_many [OF cambiar_turno_idem] x)
qed

lemma snd_commit: "snd (commit ws s) = ws"
  by (simp add: commit_def)

lemma cancelarTurnos_commit:
  "cancelarTurnos t sus s
   = commit (cancelar Turnos (motivo sus) t (turnosQuery sus (porTerapia sus s) s)) s"
proof -
  let ?ids = "map fst (filter (\<lambda>(i, t). profesionalId t = profesorId sus) (terapias s))"
  consider (prof) "tipo sus = ''profesor'' \<and> truthy (profesorId sus)"
    | (act) "\<not> (tipo sus = ''profesor'' \<and> truthy (profesorId sus))"
            "tipo sus = ''actividad'' \<and> truthy (suspension.actividadId sus)"
    | (other) "\<not> (tipo sus = ''profesor'' \<and> truthy (profesorId sus))"
              "\<not> (tipo sus = ''actividad'' \<and> truthy (suspension.actividadId sus))"
    by blast
  then show ?thesis
  proof cases
    case prof
    have por: "porTerapia sus s = (\<lambda>x. case x of None \<Rightarrow> False | Some tid \<Rightarrow> tid \<in> set ?ids)"
      using prof by (intro ext) (simp add: porTerapia_def split: option.splits)
    show ?thesis
    proof (cases "?ids = []")
      case True
      have "turnosQuery sus (porTerapia sus s) s = []"
        unfolding por True by (auto simp: turnosQuery_def filter_empty_conv split: option.splits)
      then show ?thesis
        using prof True by (simp add: cancelarTurnos_def commit_def cancelar_def)
    next
      case False
      then show ?thesis
        using prof unfolding por by (simp add: cancelarTurnos_def)
    qed
  next
    case act
    have "porTerapia sus s = (\<lambda>x. x = suspension.actividadId sus)"
      using act by (intro ext) (simp add: porTerapia_def)
    then show ?thesis
      using act by (auto simp: cancelarTurnos_def)
  next
    case other
    have "porTerapia sus s = (\<lambda>x. True)"
      using other by (intro ext) (auto simp: porTerapia_def)
    then show ?thesis
      using other by (auto simp: cancelarTurnos_def)
  qed
qed

lemma filter_after_cancel:
  assumes "\<And>j d. \<not> P (j, f d)"
  shows "filter P (map (\<lambda>(j, d). if j \<in> fst ` set (filter P c) then (j, f d) else (j, d)) c) = []"
proof -
  have "\<not> P x" if "x \<in> set (map (\<lambda>(j, d). if j \<in> fst ` set (filter P c) then (j, f d) else (j, d)) c)" for x
  proof -
    from that obtain j d where jd: "(j, d) \<in> set c"
      and x: "x = (if j \<in> fst ` set (filter P c) then (j, f d) else (j, d))"
      by auto
    show ?thesis
    proof (cases "j \<in> fst ` set (filter P c)")
      case True
      with x show ?thesis by (simp add: assms)
    next
      case False
      with jd have "\<not> P (j, d)" by force
      with False x show ?thesis by simp
    qed
  qed
  then show ?thesis
    unfolding filter_empty_conv by blast
qed

lemma porTerapia_turnos [simp]: "porTerapia sus (s\<lparr>turnos := ts\<rparr>) = porTerapia sus s"
  by (intro ext) (simp add: porTerapia_def split: option.splits)

lemma porTerapia_reservas [simp]: "porTerapia sus (s\<lparr>reservas := rs\<rparr>) = porTerapia sus s"
  by (intro ext) (simp add: porTerapia_def split: option.splits)

lemma reservasQuery_after:
  "reservasQuery sus (fst (cancelarReservas t sus s)) = []"
proof -
  let ?P = "\<lambda>(i, r). in_window sus (fechaActividad r) \<and> reserva.estado r = Some ''confirmada'' \<and>
         (if tipo sus = ''actividad'' \<and> truthy (suspension.actividadId sus)
          then reserva.actividadId r = suspension.actividadId sus else True)"
  have q: "reservasQuery sus x = filter ?P (reservas x)" for x
    by (simp add: reservasQuery_def in_window_def)
  have "filter ?P (map (\<lambda>(j, d). if j \<in> fst ` set (filter ?P (reservas s))
           then (j, cambiar_reserva (CanceladoPorAdmin (motivo sus) t) d) else (j, d)) (reservas s)) = []"
    by (rule filter_after_cancel) (simp add: cambiar_reserva_def)
  then show ?thesis
    by (simp add: q cancelarReservas_def commit_cancelar_reservas)
qed

lemma turnosQuery_after:
  "turnosQuery sus (porTerapia sus s) (fst (cancelarTurnos t sus s)) = []"
proof -
  let ?P = "\<lambda>(i, x). in_window sus (fechaTurno x) \<and> turno.estado x = Some ''confirmado'' \<and>
         porTerapia sus s (terapiaId x)"
  have q: "turnosQuery sus (porTerapia sus s) x = filter ?P (turnos x)" for x
    by (simp add: turnosQuery_def in_window_def)
  have "filter ?P (map (\<lambda>(j, d). if j \<in> fst ` set (filter ?P (turnos s))
           then (j, cambiar_turno (CanceladoPorAdmin (motivo sus) t) d) else (j, d)) (turnos s)) = []"
    by (rule filter_after_cancel) (simp add: cambiar_turno_def)
  then show ?thesis
    by (simp add: q cancelarTurnos_commit commit_cancelar_turnos)
qed

lemma commit_Nil: "commit [] s = (s, [])"
  by (simp add: commit_def)

text \<open>
  C3. Running \<^verbatim>\<open>procesarSuspension\<close> a second time for the same event, on the store the
  first run left and at any later server time, makes no write and leaves that store as
  it is: the records cancelled are those of the first run.
\<close>

theorem cascade_idempotent:
  "procesarSuspension t2 (fst (procesarSuspension t1 s ev)) ev
   = (fst (procesarSuspension t1 s ev), [])"
proof (cases ev)
  case None
  then show ?thesis by (simp add: procesarSuspension_def)
next
  case (Some ch)
  show ?thesis
  proof (cases "after ch")
    case None
    with Some show ?thesis by (simp add: procesarSuspension_def)
  next
    case (Some sus)
    note sus = \<open>ev = Some ch\<close> Some
    show ?thesis
    proof (cases "afectaReservasExistentes sus = Some True")
      case False
      with sus show ?thesis by (simp add: procesarSuspension_def)
    next
      case True
      define s1 where "s1 = fst (cancelarReservas t1 sus s)"
      define s2 where "s2 = fst (cancelarTurnos t1 sus s1)"
      have first: "fst (procesarSuspension t1 s ev) = s2"
        using sus True by (simp add: procesarSuspension_def s1_def s2_def case_prod_unfold Let_def)
      have s2: "s2 = s1\<lparr>turnos := turnos s2\<rparr>"
        unfolding s2_def by (simp add: cancelarTurnos_commit commit_cancelar_turnos)
      have "reservasQuery sus s1 = []"
        unfolding s1_def by (rule reservasQuery_after)
      then have "reservasQuery sus s2 = []"
        by (subst s2) (simp add: reservasQuery_def)
      then have r: "cancelarReservas t2 sus s2 = (s2, [])"
        by (simp add: cancelarReservas_def cancelar_def commit_Nil)
      have "turnosQuery sus (porTerapia sus s1) s2 = []"
        unfolding s2_def by (rule turnosQuery_after)
      moreover have "porTerapia sus s2 = porTerapia sus s1"
        by (subst s2) simp
      ultimately have "cancelarTurnos t2 sus s2 = (s2, [])"
        by (simp add: cancelarTurnos_commit cancelar_def commit_Nil)
      with r have "procesarSuspension t2 s2 ev = (s2, [])"
        using sus True by (simp add: procesarSuspension_def)
      with first show ?thesis by simp
    qed
  qed
qed

theorem cascade_idempotent_witness:
  "procesarSuspension t0
     (tienda [(''r1'', reserva_de ''a1'' None ''confirmada'')]
             [(''c1'', turno_de (Some ''t1'') t0 ''confirmado'')])
     (Some \<lparr>before = None, after = Some (cierre ''actividad'' (Some ''a1'') (Some True))\<rparr>)
   = (tienda [(''r1'', (reserva_de ''a1'' None ''confirmada'')
                \<lparr>reserva.estado := Some ''cancelado_por_admin'',
                 reserva.motivoCancelacion := Some ''Feriado'',
                 reserva.fechaCancelacion := Some t0\<rparr>)]
             [(''c1'', turno_de (Some ''t1'') t0 ''confirmado'')],
      [Update Reservas ''r1'' (CanceladoPorAdmin ''Feriado'' t0)]) \<and>
   procesarSuspension \<lparr>seconds = 36001, nanoseconds = 0\<rparr>
     (tienda [(''r1'', (reserva_de ''a1'' None ''confirmada'')
                \<lparr>reserva.estado := Some ''cancelado_por_admin'',
                 reserva.motivoCancelacion := Some ''Feriado'',
                 reserva.fechaCancelacion := Some t0\<rparr>)]
             [(''c1'', turno_de (Some ''t1'') t0 ''confirmado'')])
     (Some \<lparr>before = None, after = Some (cierre ''actividad'' (Some ''a1'') (Some True))\<rparr>)
   = (tienda [(''r1'', (reserva_de ''a1'' None ''confirmada'')
                \<lparr>reserva.estado := Some ''cancelado_por_admin'',
                 reserva.motivoCancelacion := Some ''Feriado'',
                 reserva.fechaCancelacion := Some t0\<rparr>)]
             [(''c1'', turno_de (Some ''t1'') t0 ''confirmado'')], [])"
proof -
  have first: "procesarSuspension t0
     (tienda [(''r1'', reserva_de ''a1'' None ''confirmada'')]
             [(''c1'', turno_de (Some ''t1'') t0 ''confirmado'')])
     (Some \<lparr>before = None, after = Some (cierre ''actividad'' (Some ''a1'') (Some True))\<rparr>)
   = (tienda [(''r1'', (reserva_de ''a1'' None ''confirmada'')
                \<lparr>reserva.estado := Some ''cancelado_por_admin'',
                 reserva.motivoCancelacion := Some ''Feriado'',
                 reserva.fechaCancelacion := Some t0\<rparr>)]
             [(''c1'', turno_de (Some ''t1'') t0 ''confirmado'')],
      [Update Reservas ''r1'' (CanceladoPorAdmin ''Feriado'' t0)])"
    by (simp add: ejemplos procesarSuspension_def cancelarReservas_def cancelarTurnos_def
        reservasQuery_def turnosQuery_def cancelar_def commit_def truthy_def ts_le_def
        update_doc_def cambiar_reserva_def)
  show ?thesis
    using cascade_idempotent [of "\<lparr>seconds = 36001, nanoseconds = 0\<rparr>" t0
      "tienda [(''r1'', reserva_de ''a1'' None ''confirmada'')]
              [(''c1'', turno_de (Some ''t1'') t0 ''confirmado'')]"
      "Some \<lparr>before = None, after = Some (cierre ''actividad'' (Some ''a1'') (Some True))\<rparr>"]
    unfolding first by simp
qed

section \<open>The reservations a suspension cancels\<close>

lemma map_by_ids:
  assumes "distinct (map fst c)"
  shows "map (\<lambda>(j, d). if j \<in> fst ` set (filter P c) then (j, f d) else (j, d)) c
         = map (\<lambda>(j, d). if P (j, d) then (j, f d) else (j, d)) c"
proof (rule map_cong [OF refl])
  fix x assume x: "x \<in> set c"
  obtain j d where jd: "x = (j, d)" by (cases x)
  have "j \<in> fst ` set (filter P c) \<longleftrightarrow> P (j, d)"
  proof
    assume "j \<in> fst ` set (filter P c)"
    then obtain d' where d': "(j, d') \<in> set c" "P (j, d')" by auto
    with assms x jd have "d' = d" by (metis eq_key_imp_eq_value)
    with d' show "P (j, d)" by simp
  next
    assume "P (j, d)"
    with x jd show "j \<in> fst ` set (filter P c)" by force
  qed
  then show "(case x of (j, d) \<Rightarrow> if j \<in> fst ` set (filter P c) then (j, f d) else (j, d))
             = (case x of (j, d) \<Rightarrow> if P (j, d) then (j, f d) else (j, d))"
    by (simp add: jd)
qed

lemma procesarSuspension_store:
  assumes "after ch = Some sus" and "afectaReservasExistentes sus = Some True"
  shows "fst (procesarSuspension ahora s (Some ch))
         = s\<lparr>reservas :=
               map (\<lambda>(j, r). if j \<in> fst ` set (reservasQuery sus s)
                      then (j, cambiar_reserva (CanceladoPorAdmin (motivo sus) ahora) r) else (j, r))
                 (reservas s),
             turnos :=
               map (\<lambda>(j, x). if j \<in> fst ` set (turnosQuery sus (porTerapia sus s) s)
                      then (j, cambiar_turno (CanceladoPorAdmin (motivo sus) ahora) x) else (j, x))
                 (turnos s)\<rparr>"
proof -
  have q: "turnosQuery sus p (s\<lparr>reservas := rs\<rparr>) = turnosQuery sus p s" for p rs
    by (simp add: turnosQuery_def)
  show ?thesis
    using assms
    by (simp add: procesarSuspension_def Let_def case_prod_unfold cancelarReservas_def
        cancelarTurnos_commit commit_cancelar_reservas commit_cancelar_turnos q)
qed

text \<open>
  C5. For a suspension of activity \<open>a1\<close> that cascades, on a store whose reservation ids
  are distinct: every reservation of \<open>a1\<close> whose date is in the window and whose
  \<^verbatim>\<open>estado\<close> is \<^verbatim>\<open>confirmada\<close> gets \<^verbatim>\<open>cancelado_por_admin\<close>, the reason of the
  suspension in \<^verbatim>\<open>motivoCancelacion\<close> and the server time; every other reservation (of
  another activity, outside the window, or not confirmed) is as it was.
\<close>

theorem activity_suspension:
  assumes "distinct (map fst (reservas s))"
    and "tipo sus = ''actividad''" and "suspension.actividadId sus = Some a1" and "a1 \<noteq> []"
    and "afectaReservasExistentes sus = Some True"
  shows "reservas (fst (procesarSuspension ahora s (Some \<lparr>before = b, after = Some sus\<rparr>)))
         = map (\<lambda>(i, r).
                  if reserva.actividadId r = Some a1 \<and> in_window sus (fechaActividad r) \<and>
                     reserva.estado r = Some ''confirmada''
                  then (i, r\<lparr>reserva.estado := Some ''cancelado_por_admin'',
                             reserva.motivoCancelacion := Some (motivo sus),
                             reserva.fechaCancelacion := Some ahora\<rparr>)
                  else (i, r))
             (reservas s)"
proof -
  let ?P = "\<lambda>(i, r). reserva.actividadId r = Some a1 \<and> in_window sus (fechaActividad r) \<and>
                     reserva.estado r = Some ''confirmada''"
  have q: "reservasQuery sus s = filter ?P (reservas s)"
    using assms(2-4)
    by (auto simp: reservasQuery_def in_window_def truthy_def intro!: filter_cong)
  have "reservas (fst (procesarSuspension ahora s (Some \<lparr>before = b, after = Some sus\<rparr>)))
        = map (\<lambda>(j, r). if j \<in> fst ` set (filter ?P (reservas s))
                      then (j, cambiar_reserva (CanceladoPorAdmin (motivo sus) ahora) r) else (j, r))
                 (reservas s)"
    using assms(5) by (simp add: procesarSuspension_store q)
  also have "\<dots> = map (\<lambda>(j, r). if ?P (j, r)
                      then (j, cambiar_reserva (CanceladoPorAdmin (motivo sus) ahora) r) else (j, r))
                 (reservas s)"
    by (rule map_by_ids [OF assms(1)])
  finally show ?thesis
    by (simp add: cambiar_reserva_def case_prod_unfold)
qed

theorem activity_suspension_witness:
  "reservas (fst (procesarSuspension t0
     (tienda [(''r1'', reserva_de ''a1'' None ''confirmada''),
              (''r2'', reserva_de ''a2'' None ''confirmada''),
              (''r3'', reserva_de ''a1'' None ''pendiente'')] [])
     (Some \<lparr>before = None, after = Some (cierre ''actividad'' (Some ''a1'') (Some True))\<rparr>)))
   = [(''r1'', (reserva_de ''a1'' None ''confirmada'')
                \<lparr>reserva.estado := Some ''cancelado_por_admin'',
                 reserva.motivoCancelacion := Some ''Feriado'',
                 reserva.fechaCancelacion := Some t0\<rparr>),
      (''r2'', reserva_de ''a2'' None ''confirmada''),
      (''r3'', reserva_de ''a1'' None ''pendiente'')]"
  using activity_suspension [of
     "tienda [(''r1'', reserva_de ''a1'' None ''confirmada''),
              (''r2'', reserva_de ''a2'' None ''confirmada''),
              (''r3'', reserva_de ''a1'' None ''pendiente'')] []"
     "cierre ''actividad'' (Some ''a1'') (Some True)" "''a1''" t0 None]
  by (simp add: ejemplos in_window_def ts_le_def)

section \<open>The life of a booking\<close>

lemma filter_mem: "filter (\<lambda>x. x \<in> set (filter Q c)) c = filter Q c"
  by (rule filter_cong) auto

lemma map_of_unchanged:
  assumes "distinct (map fst c)" and "(i, x) \<in> set c" and "\<not> P (i, x)"
  shows "map_of (map (\<lambda>(j, d). if P (j, d) then (j, f d) else (j, d)) c) i = Some x"
proof -
  let ?c = "map (\<lambda>(j, d). if P (j, d) then (j, f d) else (j, d)) c"
  have m: "map fst ?c = map fst c"
    by (induction c) auto
  have "distinct (map fst ?c)"
    unfolding m by (rule assms(1))
  moreover have "(i, x) \<in> set ?c"
    using assms(2,3) by force
  ultimately show ?thesis by (rule map_of_is_SomeI)
qed

lemma cascade_keeps_reserva:
  assumes "distinct (map fst (reservas s))" and "(i, x) \<in> set (reservas s)"
    and "reserva.estado x \<noteq> Some ''confirmada''"
  shows "map_of (reservas (fst (procesarSuspension ahora s ev))) i = Some x"
proof (cases "\<exists>ch sus. ev = Some ch \<and> after ch = Some sus \<and> afectaReservasExistentes sus = Some True")
  case True
  then obtain ch sus where ev: "ev = Some ch" "after ch = Some sus"
    "afectaReservasExistentes sus = Some True" by blast
  let ?P = "\<lambda>jd. jd \<in> set (reservasQuery sus s)"
  have f: "filter ?P (reservas s) = reservasQuery sus s"
    unfolding reservasQuery_def by (rule filter_mem)
  have "\<not> ?P (i, x)"
    using assms(3) by (auto simp: reservasQuery_def)
  then have "map_of (map (\<lambda>(j, d). if ?P (j, d)
         then (j, cambiar_reserva (CanceladoPorAdmin (motivo sus) ahora) d) else (j, d)) (reservas s)) i
       = Some x"
    using assms(1,2) by (intro map_of_unchanged)
  moreover have "map (\<lambda>(j, d). if j \<in> fst ` set (reservasQuery sus s)
         then (j, cambiar_reserva (CanceladoPorAdmin (motivo sus) ahora) d) else (j, d)) (reservas s)
       = map (\<lambda>(j, d). if ?P (j, d)
         then (j, cambiar_reserva (CanceladoPorAdmin (motivo sus) ahora) d) else (j, d)) (reservas s)"
    using map_by_ids [OF assms(1), of ?P] unfolding f .
  moreover have "reservas (fst (procesarSuspension ahora s ev))
       = map (\<lambda>(j, d). if j \<in> fst ` set (reservasQuery sus s)
         then (j, cambiar_reserva (CanceladoPorAdmin (motivo sus) ahora) d) else (j, d)) (reservas s)"
    unfolding ev procesarSuspension_store [OF ev(2,3)] by simp
  ultimately show ?thesis by (simp only:)
next
  case False
  then have "fst (procesarSuspension ahora s ev) = s"
    by (auto simp: procesarSuspension_def split: option.splits)
  with assms(1,2) show ?thesis by simp
qed

lemma cascade_keeps_turno:
  assumes "distinct (map fst (turnos s))" and "(i, x) \<in> set (turnos s)"
    and "turno.estado x \<noteq> Some ''confirmado''"
  shows "map_of (turnos (fst (procesarSuspension ahora s ev))) i = Some x"
proof (cases "\<exists>ch sus. ev = Some ch \<and> after ch = Some sus \<and> afectaReservasExistentes sus = Some True")
  case True
  then obtain ch sus where ev: "ev = Some ch" "after ch = Some sus"
    "afectaReservasExistentes sus = Some True" by blast
  let ?P = "\<lambda>jd. jd \<in> set (turnosQuery sus (porTerapia sus s) s)"
  have f: "filter ?P (turnos s) = turnosQuery sus (porTerapia sus s) s"
    unfolding turnosQuery_def by (rule filter_mem)
  have "\<not> ?P (i, x)"
    using assms(3) by (auto simp: turnosQuery_def)
  then have "map_of (map (\<lambda>(j, d). if ?P (j, d)
         then (j, cambiar_turno (CanceladoPorAdmin (motivo sus) ahora) d) else (j, d)) (turnos s)) i
       = Some x"
    using assms(1,2) by (intro map_of_unchanged)
  moreover have "map (\<lambda>(j, d). if j \<in> fst ` set (turnosQuery sus (porTerapia sus s) s)
         then (j, cambiar_turno (CanceladoPorAdmin (motivo sus) ahora) d) else (j, d)) (turnos s)
       = map (\<lambda>(j, d). if ?P (j, d)
         then (j, cambiar_turno (CanceladoPorAdmin (motivo sus) ahora) d) else (j, d)) (turnos s)"
    using map_by_ids [OF assms(1), of ?P] unfolding f .
  moreover have "turnos (fst (procesarSuspension ahora s ev))
       = map (\<lambda>(j, d). if j \<in> fst ` set (turnosQuery sus (porTerapia sus s) s)
         then (j, cambiar_turno (CanceladoPorAdmin (motivo sus) ahora) d) else (j, d)) (turnos s)"
    unfolding ev procesarSuspension_store [OF ev(2,3)] by simp
  ultimately show ?thesis by (simp only:)
next
  case False
  then have "fst (procesarSuspension ahora s ev) = s"
    by (auto simp: procesarSuspension_def split: option.splits)
  with assms(1,2) show ?thesis by simp
qed

lemma cascade_writes:
  "w \<in> set (snd (procesarSuspension ahora s ev)) \<Longrightarrow> \<exists>d i m t. w = Update d i (CanceladoPorAdmin m t)"
  by (auto simp: procesarSuspension_def Let_def case_prod_unfold cancelarReservas_def
      cancelarTurnos_commit snd_commit cancelar_def split: option.splits if_splits)

text \<open>
  C4, as the specification states it: it fails. A pending reservation that is admitted
  gets no write; after \<^verbatim>\<open>reservarActividad\<close> its \<^verbatim>\<open>estado\<close> is still
  \<^verbatim>\<open>pendiente\<close>, which is none of the terminal statuses.
\<close>

theorem admitted_stays_pending:
  "reservarActividad (tienda [(''r1'', reserva_de ''a1'' (Some 2) ''pendiente'')] [])
     (Some (''r1'', reserva_de ''a1'' (Some 2) ''pendiente''))
   = (tienda [(''r1'', reserva_de ''a1'' (Some 2) ''pendiente'')] [], []) \<and>
   map_option reserva.estado
     (map_of (reservas (fst (reservarActividad
                 (tienda [(''r1'', reserva_de ''a1'' (Some 2) ''pendiente'')] [])
                 (Some (''r1'', reserva_de ''a1'' (Some 2) ''pendiente''))))) ''r1'')
   = Some (Some ''pendiente'')"
proof -
  have d: "js_num 2 = 2" "js_num 5 = 5"
    by (simp_all add: js_num_exact)
  show ?thesis
    by (simp add: ejemplos reservarActividad_def runTransaction_def transaccionReserva_def
        reservasSnapshot_def or_default_def truthy_def doc_def js_sub_def d)
qed

text \<open>
  C4, amended. An admission function makes at most one write, on the triggering document:
  a delete when a required field is missing; nothing when \<^verbatim>\<open>doc\<close> throws on the id of
  the activity or therapy, and nothing when the transaction succeeds (the status stays as
  it was created; nothing writes a confirmed status); one update to \<^verbatim>\<open>fallida\<close>, with
  the reason of the error, when the transaction aborts. Every write of
  \<^verbatim>\<open>procesarSuspension\<close> is an update to \<^verbatim>\<open>cancelado_por_admin\<close>, and on a store with
  distinct ids a reservation that is not \<^verbatim>\<open>confirmada\<close> and an appointment that is not
  \<^verbatim>\<open>confirmado\<close> are as they were after it.
\<close>

theorem status_lifecycle:
  "(\<not> truthy (reserva.actividadId r) \<or> fechaActividad r = None \<longrightarrow>
      reservarActividad s (Some (rid, r))
      = (s\<lparr>reservas := delete_doc rid (reservas s)\<rparr>, [Delete Reservas rid])) \<and>
   (reserva.actividadId r = Some aid \<and> aid \<noteq> [] \<and> fechaActividad r = Some f \<and>
    doc (Some aid) = None \<longrightarrow>
      reservarActividad s (Some (rid, r)) = (s, [])) \<and>
   (reserva.actividadId r = Some aid \<and> aid \<noteq> [] \<and> fechaActividad r = Some f \<and>
    doc (Some aid) = Some ref \<and>
    runTransaction s (transaccionReserva rid ref aid f (or_default (cupoTomado r) 1)) = Inr () \<longrightarrow>
      reservarActividad s (Some (rid, r)) = (s, [])) \<and>
   (reserva.actividadId r = Some aid \<and> aid \<noteq> [] \<and> fechaActividad r = Some f \<and>
    doc (Some aid) = Some ref \<and>
    runTransaction s (transaccionReserva rid ref aid f (or_default (cupoTomado r) 1)) = Inl e \<longrightarrow>
      reservarActividad s (Some (rid, r))
      = (s\<lparr>reservas :=
             update_doc rid
               (\<lambda>x. x\<lparr>reserva.estado := Some ''fallida'',
                      reserva.motivoFalla :=
                        Some (case e of HttpsError k m \<Rightarrow> m
                              | ErrorInesperado \<Rightarrow> [Texto ''Error interno del servidor.''])\<rparr>)
               (reservas s)\<rparr>,
         [Update Reservas rid
            (Fallida (case e of HttpsError k m \<Rightarrow> m
                      | ErrorInesperado \<Rightarrow> [Texto ''Error interno del servidor.'']))])) \<and>
   (\<not> truthy (terapiaId c) \<or> fechaTurno c = None \<or> \<not> truthy (usuarioId c) \<longrightarrow>
      reservarTurno s (Some (cid, c))
      = (s\<lparr>turnos := delete_doc cid (turnos s)\<rparr>, [Delete Turnos cid])) \<and>
   (terapiaId c = Some tid \<and> tid \<noteq> [] \<and> fechaTurno c = Some g \<and> truthy (usuarioId c) \<and>
    doc (Some tid) = None \<longrightarrow>
      reservarTurno s (Some (cid, c)) = (s, [])) \<and>
   (terapiaId c = Some tid \<and> tid \<noteq> [] \<and> fechaTurno c = Some g \<and> truthy (usuarioId c) \<and>
    doc (Some tid) = Some ref' \<and>
    runTransaction s (transaccionTurno cid ref' tid g) = Inr () \<longrightarrow>
      reservarTurno s (Some (cid, c)) = (s, [])) \<and>
   (terapiaId c = Some tid \<and> tid \<noteq> [] \<and> fechaTurno c = Some g \<and> truthy (usuarioId c) \<and>
    doc (Some tid) = Some ref' \<and>
    runTransaction s (transaccionTurno cid ref' tid g) = Inl e' \<longrightarrow>
      reservarTurno s (Some (cid, c))
      = (s\<lparr>turnos :=
             update_doc cid
               (\<lambda>x. x\<lparr>turno.estado := Some ''fallida'',
                      turno.motivoFalla :=
                        Some (case e' of HttpsError k m \<Rightarrow> m
                              | ErrorInesperado \<Rightarrow> [Texto ''Error interno del servidor.''])\<rparr>)
               (turnos s)\<rparr>,
         [Update Turnos cid
            (Fallida (case e' of HttpsError k m \<Rightarrow> m
                      | ErrorInesperado \<Rightarrow> [Texto ''Error interno del servidor.'']))])) \<and>
   (\<forall>w \<in> set (snd (procesarSuspension ahora s ev)).
      \<exists>d i m t. w = Update d i (CanceladoPorAdmin m t)) \<and>
   (distinct (map fst (reservas s)) \<longrightarrow>
      (\<forall>(i, x) \<in> set (reservas s). reserva.estado x \<noteq> Some ''confirmada'' \<longrightarrow>
         map_of (reservas (fst (procesarSuspension ahora s ev))) i = Some x)) \<and>
   (distinct (map fst (turnos s)) \<longrightarrow>
      (\<forall>(i, x) \<in> set (turnos s). turno.estado x \<noteq> Some ''confirmado'' \<longrightarrow>
         map_of (turnos (fst (procesarSuspension ahora s ev))) i = Some x))"
proof -
  have a1: "\<not> truthy (reserva.actividadId r) \<or> fechaActividad r = None \<longrightarrow>
      reservarActividad s (Some (rid, r))
      = (s\<lparr>reservas := delete_doc rid (reservas s)\<rparr>, [Delete Reservas rid])"
    by (auto simp: reservarActividad_def commit_def)
  have a2: "reserva.actividadId r = Some aid \<and> aid \<noteq> [] \<and> fechaActividad r = Some f \<and>
    doc (Some aid) = None \<longrightarrow>
      reservarActividad s (Some (rid, r)) = (s, [])"
    by (simp add: reservarActividad_def truthy_def)
  have a3: "reserva.actividadId r = Some aid \<and> aid \<noteq> [] \<and> fechaActividad r = Some f \<and>
    doc (Some aid) = Some ref \<and>
    runTransaction s (transaccionReserva rid ref aid f (or_default (cupoTomado r) 1)) = Inr () \<longrightarrow>
      reservarActividad s (Some (rid, r)) = (s, [])"
    by (simp add: reservarActividad_def truthy_def)
  have a4: "reserva.actividadId r = Some aid \<and> aid \<noteq> [] \<and> fechaActividad r = Some f \<and>
    doc (Some aid) = Some ref \<and>
    runTransaction s (transaccionReserva rid ref aid f (or_default (cupoTomado r) 1)) = Inl e \<longrightarrow>
      reservarActividad s (Some (rid, r))
      = (s\<lparr>reservas :=
             update_doc rid
               (\<lambda>x. x\<lparr>reserva.estado := Some ''fallida'',
                      reserva.motivoFalla :=
                        Some (case e of HttpsError k m \<Rightarrow> m
                              | ErrorInesperado \<Rightarrow> [Texto ''Error interno del servidor.''])\<rparr>)
               (reservas s)\<rparr>,
         [Update Reservas rid
            (Fallida (case e of HttpsError k m \<Rightarrow> m
                      | ErrorInesperado \<Rightarrow> [Texto ''Error interno del servidor.'']))])"
    by (simp add: reservarActividad_def truthy_def commit_def motivoDeError_def
        cambiar_reserva_def [abs_def])
  have b1: "\<not> truthy (terapiaId c) \<or> fechaTurno c = None \<or> \<not> truthy (usuarioId c) \<longrightarrow>
      reservarTurno s (Some (cid, c))
      = (s\<lparr>turnos := delete_doc cid (turnos s)\<rparr>, [Delete Turnos cid])"
    by (auto simp: reservarTurno_def commit_def)
  have b2: "terapiaId c = Some tid \<and> tid \<noteq> [] \<and> fechaTurno c = Some g \<and> truthy (usuarioId c) \<and>
    doc (Some tid) = None \<longrightarrow>
      reservarTurno s (Some (cid, c)) = (s, [])"
    by (simp add: reservarTurno_def truthy_def)
  have b3: "terapiaId c = Some tid \<and> tid \<noteq> [] \<and> fechaTurno c = Some g \<and> truthy (usuarioId c) \<and>
    doc (Some tid) = Some ref' \<and>
    runTransaction s (transaccionTurno cid ref' tid g) = Inr () \<longrightarrow>
      reservarTurno s (Some (cid, c)) = (s, [])"
    by (simp add: reservarTurno_def truthy_def)
  have b4: "terapiaId c = Some tid \<and> tid \<noteq> [] \<and> fechaTurno c = Some g \<and> truthy (usuarioId c) \<and>
    doc (Some tid) = Some ref' \<and>
    runTransaction s (transaccionTurno cid ref' tid g) = Inl e' \<longrightarrow>
      reservarTurno s (Some (cid, c))
      = (s\<lparr>turnos :=
             update_doc cid
               (\<lambda>x. x\<lparr>turno.estado := Some ''fallida'',
                      turno.motivoFalla :=
                        Some (case e' of HttpsError k m \<Rightarrow> m
                              | ErrorInesperado \<Rightarrow> [Texto ''Error interno del servidor.''])\<rparr>)
               (turnos s)\<rparr>,
         [Update Turnos cid
            (Fallida (case e' of HttpsError k m \<Rightarrow> m
                      | ErrorInesperado \<Rightarrow> [Texto ''Error interno del servidor.'']))])"
    by (simp add: reservarTurno_def truthy_def commit_def motivoDeError_def
        cambiar_turno_def [abs_def])
  have e: "\<forall>w \<in> set (snd (procesarSuspension ahora s ev)).
      \<exists>d i m t. w = Update d i (CanceladoPorAdmin m t)"
    using cascade_writes by blast
  have f: "distinct (map fst (reservas s)) \<longrightarrow>
      (\<forall>(i, x) \<in> set (reservas s). reserva.estado x \<noteq> Some ''confirmada'' \<longrightarrow>
         map_of (reservas (fst (procesarSuspension ahora s ev))) i = Some x)"
    using cascade_keeps_reserva by blast
  have g: "distinct (map fst (turnos s)) \<longrightarrow>
      (\<forall>(i, x) \<in> set (turnos s). turno.estado x \<noteq> Some ''confirmado'' \<longrightarrow>
         map_of (turnos (fst (procesarSuspension ahora s ev))) i = Some x)"
    using cascade_keeps_turno by blast
  from a1 a2 a3 a4 b1 b2 b3 b4 e f g show ?thesis by blast
qed

text \<open>
  An appointment that starts when the other ends is admitted and gets no write; an
  appointment whose therapy does not exist gets the one update to \<^verbatim>\<open>fallida\<close>; a failed
  reservation and a pending appointment are as they were after a cascade.
\<close>

theorem status_lifecycle_witness:
  "reservarTurno
     (tienda [(''r1'', reserva_de ''a1'' None ''fallida'')]
             [(''c1'', turno_de (Some ''t1'') t0 ''pendiente'')])
     (Some (''c2'', turno_de (Some ''t1'') \<lparr>seconds = 39600, nanoseconds = 0\<rparr> ''pendiente''))
   = (tienda [(''r1'', reserva_de ''a1'' None ''fallida'')]
             [(''c1'', turno_de (Some ''t1'') t0 ''pendiente'')], []) \<and>
   snd (reservarTurno
     (tienda [(''r1'', reserva_de ''a1'' None ''fallida'')]
             [(''c1'', turno_de (Some ''t1'') t0 ''pendiente'')])
     (Some (''c1'', turno_de (Some ''t9'') t0 ''pendiente'')))
   = [Update Turnos ''c1''
        (Fallida [Texto ''La terapia con ID '', Cadena (Some ''t9''), Texto '' no existe.''])] \<and>
   map_of (reservas (fst (procesarSuspension t0
       (tienda [(''r1'', reserva_de ''a1'' None ''fallida'')]
               [(''c1'', turno_de (Some ''t1'') t0 ''pendiente'')])
       (Some \<lparr>before = None, after = Some (cierre ''actividad'' (Some ''a1'') (Some True))\<rparr>)))) ''r1''
   = Some (reserva_de ''a1'' None ''fallida'') \<and>
   map_of (turnos (fst (procesarSuspension t0
       (tienda [(''r1'', reserva_de ''a1'' None ''fallida'')]
               [(''c1'', turno_de (Some ''t1'') t0 ''pendiente'')])
       (Some \<lparr>before = None, after = Some (cierre ''actividad'' (Some ''a1'') (Some True))\<rparr>)))) ''c1''
   = Some (turno_de (Some ''t1'') t0 ''pendiente'')"
proof -
  have d: "js_num 60 = 60" "js_num 3600 = 3600" "js_num 39600 = 39600" "js_num 43200 = 43200"
    by (simp_all add: js_num_exact)
  have tx: "runTransaction
     (tienda [(''r1'', reserva_de ''a1'' None ''fallida'')]
             [(''c1'', turno_de (Some ''t1'') t0 ''pendiente'')])
     (transaccionTurno ''c2'' [''t1''] ''t1'' \<lparr>seconds = 39600, nanoseconds = 0\<rparr>) = Inr ()"
    by (simp add: ejemplos runTransaction_def transaccionTurno_def solapamientosSnapshot_def
        truthy_def or_default_def ts_le_def doc_def nuevoTimestamp_def js_add_def js_mul_def d)
  have tx9: "runTransaction
     (tienda [(''r1'', reserva_de ''a1'' None ''fallida'')]
             [(''c1'', turno_de (Some ''t1'') t0 ''pendiente'')])
     (transaccionTurno ''c1'' [''t9''] ''t9'' t0)
     = Inl (HttpsError not_found
              [Texto ''La terapia con ID '', Cadena (Some ''t9''), Texto '' no existe.''])"
    by (simp add: ejemplos runTransaction_def transaccionTurno_def)
  show ?thesis
    using status_lifecycle [where s = "tienda [(''r1'', reserva_de ''a1'' None ''fallida'')]
             [(''c1'', turno_de (Some ''t1'') t0 ''pendiente'')]"
        and cid = "''c2''"
        and c = "turno_de (Some ''t1'') \<lparr>seconds = 39600, nanoseconds = 0\<rparr> ''pendiente''"
        and tid = "''t1''" and g = "\<lparr>seconds = 39600, nanoseconds = 0\<rparr>" and ref' = "[''t1'']"
        and ahora = t0
        and ev = "Some \<lparr>before = None, after = Some (cierre ''actividad'' (Some ''a1'') (Some True))\<rparr>"]
      status_lifecycle [where s = "tienda [(''r1'', reserva_de ''a1'' None ''fallida'')]
             [(''c1'', turno_de (Some ''t1'') t0 ''pendiente'')]"
        and cid = "''c1''" and c = "turno_de (Some ''t9'') t0 ''pendiente''"
        and tid = "''t9''" and g = t0 and ref' = "[''t9'']"
        and e' = "HttpsError not_found
              [Texto ''La terapia con ID '', Cadena (Some ''t9''), Texto '' no existe.'']"]
      tx tx9
    by (simp add: tienda_def turno_de_def reserva_de_def truthy_def doc_def)
qed

end
